theory Spec2Isabelle
  imports Main
begin

section \<open>Python values, exceptions and the observable state of a run\<close>

text \<open>
  The program \<^verbatim>\<open>autolysis.py\<close> is a pipeline of calls into pandas, seaborn/matplotlib,
  requests and tenacity. The functions of the script are embedded one by one; what a
  library computes (a parsed CSV, a correlation coefficient, a rendered table or image,
  the answer of the remote server) is a field of the record \<open>world\<close>, fixed for a run.
  What the run does to its surroundings is kept in \<open>state\<close>: the files and directories
  on disk and the ordered log of its effects.

  Library calls that reach outside the process can fail, and their failure is a value of
  the world: \<open>read_csv\<close>, the two renderers and \<open>http_post\<close>. Library functions that
  only compute (\<^verbatim>\<open>describe\<close>, the correlation coefficient, \<^verbatim>\<open>to_markdown\<close>,
  \<^verbatim>\<open>to_string\<close>) are functions of their argument. Paths are POSIX paths and are
  compared as strings.
\<close>

text \<open>A value decoded by \<^verbatim>\<open>response.json()\<close>: None, bool, number, str, list, dict.\<close>

datatype json =
    JNull
  | JBool bool
  | JNum int
  | JStr string
  | JArr "json list"
  | JObj "(string \<times> json) list"

text \<open>
  The exceptions a run can raise. \<open>ApiError\<close> is the \<^verbatim>\<open>Exception("API Error: ...")\<close> of
  \<^verbatim>\<open>chat\<close>; \<open>LibraryError\<close> is an exception raised inside a library call (transport,
  CSV parsing, rendering) and carries its message; \<open>RetryError\<close> is what tenacity raises,
  wrapping the exception of the last attempt.
\<close>

datatype exn =
    AttributeError
  | IndexError
  | KeyError
  | TypeError
  | JSONDecodeError
  | FileNotFoundError
  | FileExistsError
  | IsADirectoryError
  | ApiError string
  | LibraryError string
  | RetryError exn

text \<open>How control leaves a function early: \<^verbatim>\<open>sys.exit(n)\<close> or an exception nobody catches.\<close>

datatype abort = SysExit nat | Uncaught exn

text \<open>The exit status of the process: an uncaught exception ends the interpreter with 1.\<close>

fun exit_status :: "abort + unit \<Rightarrow> nat" where
  "exit_status (Inr u) = 0"
| "exit_status (Inl (SysExit n)) = n"
| "exit_status (Inl (Uncaught e)) = 1"

subsection \<open>Tables\<close>

text \<open>
  A cell of a table. \<open>NaN\<close> is pandas' missing entry; \<open>FloatV m e\<close> stands for the
  double \<open>m * 2 ^ e\<close>. No function of the script computes with a cell: it only asks
  whether one is missing.
\<close>

datatype scalar = NaN | IntV int | FloatV int int | StrV string | BoolV bool

text \<open>
  The dtype of a column, as \<^verbatim>\<open>read_csv\<close> with its default arguments infers it: integers,
  floats, booleans (a column of \<^verbatim>\<open>True\<close>/\<^verbatim>\<open>False\<close> without a missing entry), and
  \<^verbatim>\<open>object\<close> for everything else.
\<close>

datatype dtype = Int64 | Float64 | Boolean | Object

text \<open>
  A column has a label, its dtype and its cells. A DataFrame is its row index and its
  columns; a Series is a list of labelled values.
\<close>

record column =
  col_name :: string
  col_dtype :: dtype
  col_cells :: "scalar list"

text \<open>
  The columns pandas keeps under \<^verbatim>\<open>numeric_only=True\<close>: those of an integer, float or
  boolean dtype.
\<close>

fun numeric_only :: "dtype \<Rightarrow> bool" where
  "numeric_only Int64 = True"
| "numeric_only Float64 = True"
| "numeric_only Boolean = True"
| "numeric_only Object = False"

definition col_numeric :: "column \<Rightarrow> bool" where
  "col_numeric c = numeric_only (col_dtype c)"

record dataframe =
  row_index :: "scalar list"
  df_columns :: "column list"

type_synonym series = "(scalar \<times> scalar) list"

subsection \<open>The remote call\<close>

record request =
  req_url :: string
  req_authorization :: string
  req_content_type :: string
  req_model :: string
  req_messages :: "(string \<times> string) list"

text \<open>
  A response: \<open>json_body\<close> is what \<^verbatim>\<open>response.json()\<close> returns, \<open>None\<close> when the body
  is not JSON and the call raises.
\<close>

record response =
  status_code :: nat
  resp_text :: string
  json_body :: "json option"

datatype http_result = TransportError string | Responded response

subsection \<open>World and state\<close>

datatype event =
    Print string
  | MakeDirs string
  | Heatmap dataframe
  | HistPlot series
  | WriteFile string
  | HttpPost request
  | Sleep nat

record world =
  argv :: "string list"
  environ :: "string \<rightharpoonup> string"
  read_csv :: "string \<Rightarrow> string + dataframe"
  describe_all :: "dataframe \<Rightarrow> dataframe"
  corr_coef :: "scalar list \<Rightarrow> scalar list \<Rightarrow> scalar"
  to_markdown :: "dataframe \<Rightarrow> string"
  frame_to_string :: "dataframe \<Rightarrow> string"
  series_to_string :: "series \<Rightarrow> string"
  dtypes_to_string :: "dataframe \<Rightarrow> string"
  render_heatmap :: "dataframe \<Rightarrow> exn + string"
  render_hist :: "series \<Rightarrow> exn + string"
  http_post :: "nat \<Rightarrow> request \<Rightarrow> http_result"

record state =
  files :: "string \<rightharpoonup> string"
  dirs :: "string set"
  trace :: "event list"

definition emit :: "event \<Rightarrow> state \<Rightarrow> state" where
  "emit e st = st\<lparr>trace := trace st @ [e]\<rparr>"

definition py_print :: "string \<Rightarrow> state \<Rightarrow> state" where
  "py_print s st = emit (Print s) st"

definition nl :: string where
  "nl = [CHR 0x0A]"

fun is_post :: "event \<Rightarrow> bool" where
  "is_post (HttpPost r) = True"
| "is_post e = False"

text \<open>The number of HTTP requests sent so far.\<close>

definition http_calls :: "state \<Rightarrow> nat" where
  "http_calls st = length (filter is_post (trace st))"

section \<open>Step 4: the insight requester\<close>

text \<open>
  \<^verbatim>\<open>d.get(k, default)\<close>: defined on a dict only; any other value has no attribute
  \<^verbatim>\<open>get\<close>.
\<close>

fun py_get :: "json \<Rightarrow> string \<Rightarrow> json \<Rightarrow> exn + json" where
  "py_get (JObj kvs) k d = Inr (case map_of kvs k of None \<Rightarrow> d | Some v \<Rightarrow> v)"
| "py_get j k d = Inl AttributeError"

text \<open>
  \<^verbatim>\<open>x[0]\<close>: the first element of a list or str, IndexError when it is empty; a dict
  decoded from JSON has str keys only, so the key 0 is missing; the other values are not
  subscriptable.
\<close>

fun py_index0 :: "json \<Rightarrow> exn + json" where
  "py_index0 (JArr []) = Inl IndexError"
| "py_index0 (JArr (x # xs)) = Inr x"
| "py_index0 (JStr []) = Inl IndexError"
| "py_index0 (JStr (c # cs)) = Inr (JStr [c])"
| "py_index0 (JObj kvs) = Inl KeyError"
| "py_index0 j = Inl TypeError"

text \<open>
  \<^verbatim>\<open>body.get("choices", [{}])[0].get("message", {}).get("content", "")\<close>, left to
  right; the first exception ends the evaluation.
\<close>

definition extract_content :: "json \<Rightarrow> exn + json" where
  "extract_content body =
     (case py_get body ''choices'' (JArr [JObj []]) of
        Inl e \<Rightarrow> Inl e
      | Inr choices \<Rightarrow>
          (case py_index0 choices of
             Inl e \<Rightarrow> Inl e
           | Inr choice \<Rightarrow>
               (case py_get choice ''message'' (JObj []) of
                  Inl e \<Rightarrow> Inl e
                | Inr message \<Rightarrow> py_get message ''content'' (JStr ''''))))"

text \<open>Python's \<^verbatim>\<open>str(n)\<close> of a natural number.\<close>

fun string_of_nat :: "nat \<Rightarrow> string" where
  "string_of_nat n =
     (if n < 10 then [''0123456789'' ! n]
      else string_of_nat (n div 10) @ [''0123456789'' ! (n mod 10)])"

declare string_of_nat.simps [simp del]

text \<open>
  Lines 84 to 87 of \<^verbatim>\<open>chat()\<close>: what becomes of the outcome of the POST. A transport
  error is the exception \<^verbatim>\<open>requests.post\<close> raised; a response is checked for status 200.
\<close>

definition chat_reply :: "http_result \<Rightarrow> exn + json" where
  "chat_reply out =
     (case out of
        TransportError msg \<Rightarrow> Inl (LibraryError msg)
      | Responded r \<Rightarrow>
          if status_code r = 200 then
            (case json_body r of
               None \<Rightarrow> Inl JSONDecodeError
             | Some body \<Rightarrow> extract_content body)
          else
            Inl (ApiError (''API Error: '' @ string_of_nat (status_code r) @ '' - '' @ resp_text r)))"

text \<open>
  One call of \<^verbatim>\<open>chat()\<close>: one POST, answered by the server as its request number
  \<open>http_calls st\<close>.
\<close>

definition chat :: "world \<Rightarrow> request \<Rightarrow> state \<Rightarrow> (exn + json) \<times> state" where
  "chat w req st = (chat_reply (http_post w (http_calls st) req), emit (HttpPost req) st)"

text \<open>
  tenacity's \<^verbatim>\<open>@retry(stop=stop_after_attempt(n), wait=wait_fixed(d))\<close>: call the
  function; a returned value is the result; on an exception, stop with \<open>RetryError\<close>
  once the attempt number has reached \<open>n\<close>, else sleep \<open>d\<close> and call again.
\<close>

function retry_from :: "nat \<Rightarrow> nat \<Rightarrow> nat \<Rightarrow> (state \<Rightarrow> (exn + 'a) \<times> state) \<Rightarrow> state
    \<Rightarrow> (exn + 'a) \<times> state" where
  "retry_from stop_n delay attempt f st =
     (case f st of
        (Inr v, st1) \<Rightarrow> (Inr v, st1)
      | (Inl e, st1) \<Rightarrow>
          if attempt \<ge> stop_n then (Inl (RetryError e), st1)
          else retry_from stop_n delay (Suc attempt) f (emit (Sleep delay) st1))"
  by pat_completeness auto
termination
  by (relation "measure (\<lambda>(stop_n, delay, attempt, f, st). stop_n - attempt)") auto

declare retry_from.simps [simp del]

definition retry :: "nat \<Rightarrow> nat \<Rightarrow> (state \<Rightarrow> (exn + 'a) \<times> state) \<Rightarrow> state \<Rightarrow> (exn + 'a) \<times> state" where
  "retry stop_n delay f st = retry_from stop_n delay 1 f st"

definition make_request :: "string \<Rightarrow> string \<Rightarrow> request" where
  "make_request api_key prompt =
     \<lparr>req_url = ''https://api.openai.com/v1/chat/completions'',
      req_authorization = ''Bearer '' @ api_key,
      req_content_type = ''application/json'',
      req_model = ''gpt-3.5-turbo'',
      req_messages = [(''system'', ''You are a data analyst.''), (''user'', prompt)]\<rparr>"

text \<open>
  \<^verbatim>\<open>get_openai_response\<close>: \<^verbatim>\<open>not api_key\<close> holds for an unset variable and for an
  empty one.
\<close>

definition get_openai_response :: "world \<Rightarrow> string \<Rightarrow> state \<Rightarrow> (abort + json) \<times> state" where
  "get_openai_response w prompt st =
     (let api_key = environ w ''OPENAI_API_KEY'' in
      if api_key = None \<or> api_key = Some [] then
        (Inl (SysExit 1), py_print ''Error: OPENAI_API_KEY not set.'' st)
      else
        (case retry 3 2 (chat w (make_request (the api_key) prompt)) st of
           (Inl e, st1) \<Rightarrow> (Inl (Uncaught e), st1)
         | (Inr v, st1) \<Rightarrow> (Inr v, st1)))"

section \<open>Paths and the file system\<close>

text \<open>\<^verbatim>\<open>os.path\<close> on a POSIX system; a path is the string the script builds.\<close>

definition basename :: "string \<Rightarrow> string" where
  "basename p = rev (takeWhile (\<lambda>c. c \<noteq> CHR ''/'') (rev p))"

text \<open>
  \<^verbatim>\<open>os.path.splitext\<close>: the extension starts at the last dot of the last component,
  unless only dots come before it there.
\<close>

definition splitext :: "string \<Rightarrow> string \<times> string" where
  "splitext p =
     (let tail = basename p;
          d = dropWhile (\<lambda>c. c \<noteq> CHR ''.'') (rev tail)
      in if d \<noteq> [] \<and> list_ex (\<lambda>c. c \<noteq> CHR ''.'') (tl d)
         then (take (length p - length tail) p @ rev (tl d),
               CHR ''.'' # rev (takeWhile (\<lambda>c. c \<noteq> CHR ''.'') (rev tail)))
         else (p, []))"

definition path_join :: "string \<Rightarrow> string \<Rightarrow> string" where
  "path_join a b =
     (if b \<noteq> [] \<and> hd b = CHR ''/'' then b
      else if a = [] \<or> last a = CHR ''/'' then a @ b
      else a @ ''/'' @ b)"

definition dirname :: "string \<Rightarrow> string" where
  "dirname p =
     (let head = rev (dropWhile (\<lambda>c. c \<noteq> CHR ''/'') (rev p))
      in if head \<noteq> [] \<and> list_ex (\<lambda>c. c \<noteq> CHR ''/'') head
         then rev (dropWhile (\<lambda>c. c = CHR ''/'') (rev head))
         else head)"

definition path_exists :: "string \<Rightarrow> state \<Rightarrow> bool" where
  "path_exists p st = (case files st p of Some content \<Rightarrow> True | None \<Rightarrow> p \<in> dirs st)"

text \<open>
  \<^verbatim>\<open>os.makedirs(name, exist_ok=True)\<close>: nothing to do for an existing directory;
  FileExistsError when a file has the name, FileNotFoundError for the empty name. The
  script passes a single path component, so no parent is created.
\<close>

definition makedirs :: "string \<Rightarrow> state \<Rightarrow> (exn + unit) \<times> state" where
  "makedirs p st =
     (let st1 = emit (MakeDirs p) st in
      if p = [] then (Inl FileNotFoundError, st1)
      else if p \<in> dirs st then (Inr (), st1)
      else if files st p \<noteq> None then (Inl FileExistsError, st1)
      else (Inr (), st1\<lparr>dirs := insert p (dirs st)\<rparr>))"

text \<open>
  Opening a path for writing creates or truncates the file. It fails on a directory and
  when the directory part of the path is not there (the empty directory part is the
  working directory).
\<close>

definition open_w :: "string \<Rightarrow> state \<Rightarrow> exn + state" where
  "open_w p st =
     (if p \<in> dirs st then Inl IsADirectoryError
      else if dirname p \<noteq> [] \<and> dirname p \<notin> dirs st then Inl FileNotFoundError
      else Inr (emit (WriteFile p) (st\<lparr>files := (files st)(p \<mapsto> [])\<rparr>)))"

definition set_content :: "string \<Rightarrow> string \<Rightarrow> state \<Rightarrow> state" where
  "set_content p s st = st\<lparr>files := (files st)(p \<mapsto> s)\<rparr>"

text \<open>\<^verbatim>\<open>plt.savefig(path)\<close> of an image already rendered to the bytes \<open>png\<close>.\<close>

definition savefig :: "string \<Rightarrow> string \<Rightarrow> state \<Rightarrow> (exn + unit) \<times> state" where
  "savefig p png st =
     (case open_w p st of
        Inl e \<Rightarrow> (Inl e, st)
      | Inr st1 \<Rightarrow> (Inr (), set_content p png st1))"

section \<open>Step 1: the loader\<close>

text \<open>\<^verbatim>\<open>df.shape\<close> is (number of rows, number of columns).\<close>

definition load_data :: "world \<Rightarrow> string \<Rightarrow> state \<Rightarrow> (abort + dataframe) \<times> state" where
  "load_data w filename st =
     (case read_csv w filename of
        Inr df \<Rightarrow>
          (Inr df,
           py_print (''Loaded dataset with '' @ string_of_nat (length (row_index df))
                     @ '' rows and '' @ string_of_nat (length (df_columns df))
                     @ '' columns.'') st)
      | Inl msg \<Rightarrow> (Inl (SysExit 1), py_print (''Error loading data: '' @ msg) st))"

section \<open>Step 2: the analyzer\<close>

text \<open>\<^verbatim>\<open>df.isnull().sum()\<close>: per column, the number of missing cells.\<close>

definition isnull_sum :: "dataframe \<Rightarrow> series" where
  "isnull_sum df =
     map (\<lambda>c. (StrV (col_name c), IntV (int (length (filter (\<lambda>x. x = NaN) (col_cells c))))))
         (df_columns df)"

text \<open>
  \<^verbatim>\<open>df.corr(numeric_only=True)\<close>: a square table over the columns that
  \<open>numeric_only\<close> keeps, in their order; the coefficient of two columns is the
  library's.
\<close>

definition df_corr :: "world \<Rightarrow> dataframe \<Rightarrow> dataframe" where
  "df_corr w df =
     (let num = filter col_numeric (df_columns df)
      in \<lparr>row_index = map (\<lambda>c. StrV (col_name c)) num,
          df_columns =
            map (\<lambda>c. \<lparr>col_name = col_name c, col_dtype = Float64,
                      col_cells = map (\<lambda>r. corr_coef w (col_cells r) (col_cells c)) num\<rparr>) num\<rparr>)"

text \<open>\<^verbatim>\<open>DataFrame.empty\<close>: one of the two axes has length 0.\<close>

definition df_empty :: "dataframe \<Rightarrow> bool" where
  "df_empty df = (row_index df = [] \<or> df_columns df = [])"

definition analyze_data :: "world \<Rightarrow> dataframe \<Rightarrow> dataframe \<times> series \<times> dataframe" where
  "analyze_data w df = (describe_all w df, isnull_sum df, df_corr w df)"

section \<open>Step 3: the visualizer\<close>

definition chart1_path :: "string \<Rightarrow> string" where
  "chart1_path folder = folder @ ''/chart1.png''"

definition chart2_path :: "string \<Rightarrow> string" where
  "chart2_path folder = folder @ ''/chart2.png''"

text \<open>\<^verbatim>\<open>df[k]\<close>: the column labelled \<open>k\<close> as a Series, KeyError without one.\<close>

definition df_getitem :: "dataframe \<Rightarrow> string \<Rightarrow> exn + series" where
  "df_getitem df k =
     (case find (\<lambda>c. col_name c = k) (df_columns df) of
        None \<Rightarrow> Inl KeyError
      | Some c \<Rightarrow> Inr (zip (row_index df) (col_cells c)))"

definition dropna :: "series \<Rightarrow> series" where
  "dropna s = filter (\<lambda>(i, v). v \<noteq> NaN) s"

text \<open>Lines 43 to 50: the correlation heatmap.\<close>

definition chart1_step :: "world \<Rightarrow> dataframe \<Rightarrow> string \<Rightarrow> state \<Rightarrow> (exn + unit) \<times> state" where
  "chart1_step w df folder st =
     (let corr = df_corr w df in
      if \<not> df_empty corr then
        (let st1 = emit (Heatmap corr) st in
         case render_heatmap w corr of
           Inl e \<Rightarrow> (Inl e, st1)
         | Inr png \<Rightarrow> savefig (chart1_path folder) png st1)
      else (Inr (), st))"

text \<open>Lines 53 to 62: the rating histogram.\<close>

definition chart2_step :: "world \<Rightarrow> dataframe \<Rightarrow> string \<Rightarrow> state \<Rightarrow> (exn + unit) \<times> state" where
  "chart2_step w df folder st =
     (if ''average_rating'' \<in> set (map col_name (df_columns df)) then
        (case df_getitem df ''average_rating'' of
           Inl e \<Rightarrow> (Inl e, st)
         | Inr s \<Rightarrow>
             (let st1 = emit (HistPlot (dropna s)) st in
              case render_hist w (dropna s) of
                Inl e \<Rightarrow> (Inl e, st1)
              | Inr png \<Rightarrow> savefig (chart2_path folder) png st1))
      else (Inr (), st))"

definition generate_visualizations :: "world \<Rightarrow> dataframe \<Rightarrow> string \<Rightarrow> state \<Rightarrow> (exn + unit) \<times> state" where
  "generate_visualizations w df folder st =
     (case chart1_step w df folder st of
        (Inl e, st1) \<Rightarrow> (Inl e, st1)
      | (Inr u, st1) \<Rightarrow> chart2_step w df folder st1)"

section \<open>Step 5: the report writer\<close>

text \<open>\<^verbatim>\<open>s.to_frame(name=n)\<close>: the Series as a table of one column.\<close>

definition to_frame :: "string \<Rightarrow> series \<Rightarrow> dataframe" where
  "to_frame n s =
     \<lparr>row_index = map fst s,
      df_columns = [\<lparr>col_name = n, col_dtype = Int64, col_cells = map snd s\<rparr>]\<rparr>"

definition readme_path :: "string \<Rightarrow> string" where
  "readme_path folder = path_join folder ''README.md''"

text \<open>What is written before \<^verbatim>\<open>insights\<close> is touched.\<close>

definition report_head :: "world \<Rightarrow> string \<Rightarrow> dataframe \<Rightarrow> series \<Rightarrow> dataframe \<Rightarrow> string" where
  "report_head w filename summary missing_values correlation_matrix =
     ''# Automated Data Analysis Report'' @ nl @ nl
     @ ''## Dataset: `'' @ filename @ ''`'' @ nl @ nl
     @ ''### Summary Statistics'' @ nl @ nl
     @ to_markdown w summary @ nl @ nl
     @ ''### Missing Values'' @ nl @ nl
     @ to_markdown w (to_frame ''missing_count'' missing_values) @ nl @ nl
     @ ''### Correlation Matrix'' @ nl @ nl
     @ to_markdown w correlation_matrix @ nl @ nl
     @ ''### AI-Generated Insights'' @ nl @ nl"

text \<open>The embeds, each behind its \<^verbatim>\<open>os.path.exists\<close>.\<close>

definition report_embeds :: "string \<Rightarrow> state \<Rightarrow> string" where
  "report_embeds folder st =
     (if path_exists (chart1_path folder) st
      then ''![Correlation Heatmap](chart1.png)'' @ nl @ nl else [])
     @ (if path_exists (chart2_path folder) st
        then ''![Rating Distribution](chart2.png)'' @ nl else [])"

text \<open>
  \<^verbatim>\<open>generate_report\<close>. \<^verbatim>\<open>insights + "\n\n"\<close> raises TypeError unless \<^verbatim>\<open>insights\<close> is
  a str; the \<^verbatim>\<open>with\<close> block then closes the file with what was written before.
\<close>

definition generate_report ::
    "world \<Rightarrow> string \<Rightarrow> string \<Rightarrow> dataframe \<Rightarrow> series \<Rightarrow> dataframe \<Rightarrow> json \<Rightarrow> state
      \<Rightarrow> (exn + unit) \<times> state" where
  "generate_report w folder filename summary missing_values correlation_matrix insights st =
     (case open_w (readme_path folder) st of
        Inl e \<Rightarrow> (Inl e, st)
      | Inr st1 \<Rightarrow>
          (let part1 = report_head w filename summary missing_values correlation_matrix in
           case insights of
             JStr s \<Rightarrow>
               (Inr (),
                set_content (readme_path folder)
                  (part1 @ s @ nl @ nl @ ''### Visualizations'' @ nl @ nl @ report_embeds folder st1)
                  st1)
           | _ \<Rightarrow> (Inl TypeError, set_content (readme_path folder) part1 st1)))"

section \<open>Step 6: the entry point\<close>

text \<open>\<^verbatim>\<open>x.head()\<close>: the first five rows.\<close>

definition df_head :: "dataframe \<Rightarrow> dataframe" where
  "df_head df =
     \<lparr>row_index = take 5 (row_index df),
      df_columns = map (\<lambda>c. c\<lparr>col_cells := take 5 (col_cells c)\<rparr>) (df_columns df)\<rparr>"

definition build_prompt :: "world \<Rightarrow> dataframe \<Rightarrow> dataframe \<Rightarrow> series \<Rightarrow> dataframe \<Rightarrow> string" where
  "build_prompt w df summary missing_values correlation_matrix =
     ''Here is a dataset summary:'' @ nl @ nl
     @ ''Columns and types:'' @ nl @ dtypes_to_string w df @ nl @ nl
     @ ''Top summary:'' @ nl @ frame_to_string w (df_head summary) @ nl @ nl
     @ ''Missing values:'' @ nl @ series_to_string w (take 5 missing_values) @ nl @ nl
     @ ''Correlation matrix:'' @ nl @ frame_to_string w (df_head correlation_matrix) @ nl @ nl
     @ ''Write a narrative-style story with insights, trends, and what actions could be taken based on this data.''"

definition output_folder :: "string \<Rightarrow> string" where
  "output_folder filename = fst (splitext (basename filename))"

definition main :: "world \<Rightarrow> state \<Rightarrow> (abort + unit) \<times> state" where
  "main w st =
     (if length (argv w) \<noteq> 2 then
        (Inl (SysExit 1), py_print ''Usage: uv run autolysis.py <dataset.csv>'' st)
      else
        (let filename = argv w ! 1 in
         case load_data w filename st of
           (Inl a, st1) \<Rightarrow> (Inl a, st1)
         | (Inr df, st1) \<Rightarrow>
             (case analyze_data w df of
                (summary, missing_values, correlation_matrix) \<Rightarrow>
                  (let folder = output_folder filename in
                   case makedirs folder st1 of
                     (Inl e, st2) \<Rightarrow> (Inl (Uncaught e), st2)
                   | (Inr u, st2) \<Rightarrow>
                       (case generate_visualizations w df folder st2 of
                          (Inl e, st3) \<Rightarrow> (Inl (Uncaught e), st3)
                        | (Inr u, st3) \<Rightarrow>
                            (case get_openai_response w
                                    (build_prompt w df summary missing_values correlation_matrix) st3 of
                               (Inl a, st4) \<Rightarrow> (Inl a, st4)
                             | (Inr insights, st4) \<Rightarrow>
                                 (case generate_report w folder filename summary missing_values
                                         correlation_matrix insights st4 of
                                    (Inl e, st5) \<Rightarrow> (Inl (Uncaught e), st5)
                                  | (Inr u, st5) \<Rightarrow>
                                      (Inr (),
                                       py_print ([CHR 0xE2, CHR 0x9C, CHR 0x85]
                                                 @ '' Analysis complete. Output saved in `'' @ folder
                                                 @ ''/README.md` and PNG files.'') st5))))))))"

section \<open>Observations used in the statements\<close>

text \<open>What a step appended to the log: the events of \<open>st'\<close> after those of \<open>st\<close>.\<close>

definition new_events :: "state \<Rightarrow> state \<Rightarrow> event list" where
  "new_events st st' = drop (length (trace st)) (trace st')"

fun is_heatmap :: "event \<Rightarrow> bool" where
  "is_heatmap (Heatmap c) = True"
| "is_heatmap e = False"

fun is_histplot :: "event \<Rightarrow> bool" where
  "is_histplot (HistPlot s) = True"
| "is_histplot e = False"

text \<open>
  The column types of a dataset as the specification names them: numeric, text,
  boolean-like. A numeric column holds integers or floats.
\<close>

definition numeric_column :: "column \<Rightarrow> bool" where
  "numeric_column c = (col_dtype c = Int64 \<or> col_dtype c = Float64)"

definition boolean_column :: "column \<Rightarrow> bool" where
  "boolean_column c = (col_dtype c = Boolean)"

text \<open>
  The failures the retry policy is stated for: a transport error, or a response whose
  status is outside 200..299.
\<close>

definition non_2xx_or_transport_error :: "http_result \<Rightarrow> bool" where
  "non_2xx_or_transport_error out =
     (case out of
        TransportError msg \<Rightarrow> True
      | Responded r \<Rightarrow> status_code r < 200 \<or> 300 \<le> status_code r)"

text \<open>An attempt fails when \<^verbatim>\<open>chat()\<close> raises.\<close>

definition attempt_fails :: "http_result \<Rightarrow> bool" where
  "attempt_fails out = (case chat_reply out of Inl e \<Rightarrow> True | Inr v \<Rightarrow> False)"

text \<open>
  The expected shape of a body, field by field: a member \<^verbatim>\<open>choices\<close>, a first choice
  with a member \<^verbatim>\<open>message\<close>, which has a member \<^verbatim>\<open>content\<close>.
\<close>

fun member :: "string \<Rightarrow> json \<Rightarrow> json option" where
  "member k (JObj kvs) = map_of kvs k"
| "member k j = None"

fun first_item :: "json \<Rightarrow> json option" where
  "first_item (JArr (x # xs)) = Some x"
| "first_item j = None"

definition has_expected_fields :: "json \<Rightarrow> bool" where
  "has_expected_fields body =
     (case member ''choices'' body of
        None \<Rightarrow> False
      | Some choices \<Rightarrow>
          (case first_item choices of
             None \<Rightarrow> False
           | Some choice \<Rightarrow>
               (case member ''message'' choice of
                  None \<Rightarrow> False
                | Some message \<Rightarrow>
                    (case member ''content'' message of None \<Rightarrow> False | Some c \<Rightarrow> True))))"

text \<open>
  A body in which a key is absent from the dict that should hold it: no \<^verbatim>\<open>choices\<close>
  in the body; or no \<^verbatim>\<open>message\<close> in the first choice, a dict; or no \<^verbatim>\<open>content\<close> in
  the message, a dict.
\<close>

definition key_absent :: "json \<Rightarrow> bool" where
  "key_absent body =
     (case body of
        JObj kvs \<Rightarrow>
          (case map_of kvs ''choices'' of
             None \<Rightarrow> True
           | Some (JArr (JObj c # rest)) \<Rightarrow>
               (case map_of c ''message'' of
                  None \<Rightarrow> True
                | Some (JObj m) \<Rightarrow> map_of m ''content'' = None
                | Some j \<Rightarrow> False)
           | Some j \<Rightarrow> False)
      | j \<Rightarrow> False)"

text \<open>
  \<open>only_logs A st st'\<close>: the log of \<open>st'\<close> is the log of \<open>st\<close> followed by events that
  all satisfy \<open>A\<close>.
\<close>

definition only_logs :: "(event \<Rightarrow> bool) \<Rightarrow> state \<Rightarrow> state \<Rightarrow> bool" where
  "only_logs A st st' =
     (take (length (trace st)) (trace st') = trace st \<and> list_all A (new_events st st'))"

section \<open>A sample run\<close>

text \<open>
  A dataset of three rows with a numeric column, a text column and a rating column with
  one missing value, and a world around it; the server is a parameter.
\<close>

definition demo_df :: dataframe where
  "demo_df =
     \<lparr>row_index = [IntV 0, IntV 1, IntV 2],
      df_columns =
        [\<lparr>col_name = ''id'', col_dtype = Int64, col_cells = [IntV 1, IntV 2, IntV 3]\<rparr>,
         \<lparr>col_name = ''title'', col_dtype = Object, col_cells = [StrV ''a'', StrV ''b'', NaN]\<rparr>,
         \<lparr>col_name = ''average_rating'', col_dtype = Float64,
          col_cells = [FloatV 9 (- 1), NaN, FloatV 4 0]\<rparr>]\<rparr>"

text \<open>The same table without a numeric column and without the rating column.\<close>

definition text_df :: dataframe where
  "text_df =
     \<lparr>row_index = [IntV 0, IntV 1],
      df_columns =
        [\<lparr>col_name = ''title'', col_dtype = Object, col_cells = [StrV ''a'', NaN]\<rparr>,
         \<lparr>col_name = ''author'', col_dtype = Object, col_cells = [StrV ''x'', StrV ''y'']\<rparr>]\<rparr>"

text \<open>A table of two columns of booleans, the CSV \<^verbatim>\<open>a,b / True,False / False,True\<close>.\<close>

definition bool_df :: dataframe where
  "bool_df =
     \<lparr>row_index = [IntV 0, IntV 1],
      df_columns =
        [\<lparr>col_name = ''a'', col_dtype = Boolean, col_cells = [BoolV True, BoolV False]\<rparr>,
         \<lparr>col_name = ''b'', col_dtype = Boolean, col_cells = [BoolV False, BoolV True]\<rparr>]\<rparr>"

definition demo_world :: "(nat \<Rightarrow> request \<Rightarrow> http_result) \<Rightarrow> world" where
  "demo_world server =
     \<lparr>argv = [''autolysis.py'', ''data.csv''],
      environ = [''OPENAI_API_KEY'' \<mapsto> ''sk-test''],
      read_csv = (\<lambda>f. if f = ''data.csv'' then Inr demo_df
                     else if f = ''text.csv'' then Inr text_df
                     else if f = ''flags.csv'' then Inr bool_df else Inl ''No such file''),
      describe_all = (\<lambda>df. df),
      corr_coef = (\<lambda>a b. if a = b then FloatV 1 0 else FloatV 1 (- 1)),
      to_markdown = (\<lambda>df. concat (map col_name (df_columns df))),
      frame_to_string = (\<lambda>df. concat (map col_name (df_columns df))),
      series_to_string = (\<lambda>s. ''series''),
      dtypes_to_string = (\<lambda>df. ''dtypes''),
      render_heatmap = (\<lambda>c. Inr ''PNG1''),
      render_hist = (\<lambda>s. Inr ''PNG2''),
      http_post = server\<rparr>"

definition server_down :: "nat \<Rightarrow> request \<Rightarrow> http_result" where
  "server_down n req = TransportError ''connection refused''"

definition server_status :: "nat \<Rightarrow> nat \<Rightarrow> request \<Rightarrow> http_result" where
  "server_status code n req = Responded \<lparr>status_code = code, resp_text = ''busy'', json_body = None\<rparr>"

definition server_reply :: "json \<Rightarrow> nat \<Rightarrow> request \<Rightarrow> http_result" where
  "server_reply body n req = Responded \<lparr>status_code = 200, resp_text = [], json_body = Some body\<rparr>"

text \<open>A renderer that fails, as when the disk is full.\<close>

definition no_space :: "'a \<Rightarrow> exn + string" where
  "no_space x = Inl (LibraryError ''No space left on device'')"

definition demo_state :: state where
  "demo_state = \<lparr>files = Map.empty, dirs = {}, trace = []\<rparr>"

section \<open>Auxiliary facts\<close>

subsection \<open>The log\<close>

lemma http_calls_emit [simp]:
  "http_calls (emit e st) = (if is_post e then Suc (http_calls st) else http_calls st)"
  by (simp add: http_calls_def emit_def)

lemma trace_emit [simp]: "trace (emit e st) = trace st @ [e]"
  by (simp add: emit_def)

lemma files_emit [simp]: "files (emit e st) = files st"
  by (simp add: emit_def)

lemma dirs_emit [simp]: "dirs (emit e st) = dirs st"
  by (simp add: emit_def)

lemma retry_chat_cases:
  "retry 3 2 (chat w req) st =
     (let n = http_calls st; P = HttpPost req in
      case chat_reply (http_post w n req) of
        Inr v \<Rightarrow> (Inr v, emit P st)
      | Inl e0 \<Rightarrow>
          (case chat_reply (http_post w (n + 1) req) of
             Inr v \<Rightarrow> (Inr v, emit P (emit (Sleep 2) (emit P st)))
           | Inl e1 \<Rightarrow>
               (case chat_reply (http_post w (n + 2) req) of
                  Inr v \<Rightarrow> (Inr v, emit P (emit (Sleep 2) (emit P (emit (Sleep 2) (emit P st)))))
                | Inl e2 \<Rightarrow>
                    (Inl (RetryError e2),
                     emit P (emit (Sleep 2) (emit P (emit (Sleep 2) (emit P st))))))))"
  by (simp add: retry_def chat_def Let_def
        retry_from.simps [of _ _ "Suc 0"] retry_from.simps [of _ _ "Suc (Suc 0)"]
        retry_from.simps [of _ _ "Suc (Suc (Suc 0))"] split: sum.splits)

subsection \<open>Paths\<close>

lemma last_readme_path: "last (readme_path folder) = CHR ''d''"
  by (simp add: readme_path_def path_join_def)

lemma last_chart1_path: "last (chart1_path folder) = CHR ''g''"
  by (simp add: chart1_path_def)

lemma last_chart2_path: "last (chart2_path folder) = CHR ''g''"
  by (simp add: chart2_path_def)

lemma chart1_not_readme [simp]: "chart1_path folder \<noteq> readme_path folder'"
  using last_readme_path [of folder'] last_chart1_path [of folder] by auto

lemma chart2_not_readme [simp]: "chart2_path folder \<noteq> readme_path folder'"
  using last_readme_path [of folder'] last_chart2_path [of folder] by auto

lemma readme_not_chart1 [simp]: "readme_path folder' \<noteq> chart1_path folder"
  using chart1_not_readme [of folder folder'] by metis

lemma readme_not_chart2 [simp]: "readme_path folder' \<noteq> chart2_path folder"
  using chart2_not_readme [of folder folder'] by metis

lemma chart1_not_chart2 [simp]: "chart1_path folder \<noteq> chart2_path folder"
  by (simp add: chart1_path_def chart2_path_def)

lemma chart2_not_chart1 [simp]: "chart2_path folder \<noteq> chart1_path folder"
  by (simp add: chart1_path_def chart2_path_def)

subsection \<open>The log only grows\<close>

lemma only_logs_iff:
  "only_logs A st st' \<longleftrightarrow> (\<exists>evs. trace st' = trace st @ evs \<and> list_all A evs)"
proof
  assume h: "only_logs A st st'"
  have "trace st' = take (length (trace st)) (trace st') @ drop (length (trace st)) (trace st')"
    by simp
  with h have "trace st' = trace st @ new_events st st'"
    by (simp add: only_logs_def new_events_def)
  with h show "\<exists>evs. trace st' = trace st @ evs \<and> list_all A evs"
    unfolding only_logs_def by blast
next
  assume "\<exists>evs. trace st' = trace st @ evs \<and> list_all A evs"
  then show "only_logs A st st'"
    by (auto simp: only_logs_def new_events_def)
qed

lemma only_logs_refl [simp]: "only_logs A st st"
  by (simp add: only_logs_def new_events_def)

lemma only_logs_emit: "A e \<Longrightarrow> only_logs A st (emit e st)"
  by (simp add: only_logs_iff)

lemma only_logs_trans:
  "only_logs A st st' \<Longrightarrow> only_logs A st' st'' \<Longrightarrow> only_logs A st st''"
  by (auto simp: only_logs_iff)

lemma only_logs_mono:
  "only_logs A st st' \<Longrightarrow> (\<And>e. A e \<Longrightarrow> B e) \<Longrightarrow> only_logs B st st'"
  by (auto simp: only_logs_iff list_all_iff)

lemma only_logs_new_events:
  "only_logs A st st' \<Longrightarrow> list_all A (new_events st st')"
  by (simp add: only_logs_def)

lemma new_events_trans:
  "only_logs A st st' \<Longrightarrow> only_logs B st' st'' \<Longrightarrow>
   new_events st st'' = new_events st st' @ new_events st' st''"
  by (auto simp: only_logs_iff new_events_def)

lemma only_logs_http_calls:
  "only_logs A st st' \<Longrightarrow> (\<And>e. A e \<Longrightarrow> \<not> is_post e) \<Longrightarrow> http_calls st' = http_calls st"
  by (auto simp: only_logs_iff http_calls_def list_all_iff filter_empty_conv)

lemma only_logs_set_content [simp]:
  "only_logs A st (set_content p s st') = only_logs A st st'"
  by (simp add: only_logs_def new_events_def set_content_def)

lemma files_set_content [simp]: "files (set_content p s st) = (files st)(p \<mapsto> s)"
  by (simp add: set_content_def)

lemma dirs_set_content [simp]: "dirs (set_content p s st) = dirs st"
  by (simp add: set_content_def)

lemma trace_set_content [simp]: "trace (set_content p s st) = trace st"
  by (simp add: set_content_def)

subsection \<open>Effects of the primitives\<close>

lemma open_w_Inr:
  "open_w p st = Inr st1 \<Longrightarrow>
   files st1 = (files st)(p \<mapsto> []) \<and> dirs st1 = dirs st \<and> trace st1 = trace st @ [WriteFile p]
   \<and> p \<notin> dirs st"
  by (auto simp: open_w_def split: if_splits)

lemma savefig_effect:
  assumes "savefig p png st = (r, st')"
  shows "dirs st' = dirs st \<and> only_logs (\<lambda>e. e = WriteFile p) st st'
   \<and> (\<forall>q. q \<noteq> p \<longrightarrow> files st' q = files st q)
   \<and> (r = Inr () \<longrightarrow> files st' p = Some png \<and> new_events st st' = [WriteFile p])
   \<and> (r \<noteq> Inr () \<longrightarrow> st' = st)"
proof (cases "open_w p st")
  case (Inl e)
  with assms show ?thesis by (auto simp: savefig_def)
next
  case (Inr st1)
  from open_w_Inr [OF Inr] have
    f: "files st1 = (files st)(p \<mapsto> [])" and d: "dirs st1 = dirs st"
    and t: "trace st1 = trace st @ [WriteFile p]" by simp_all
  from assms Inr have r: "r = Inr ()" and s: "st' = set_content p png st1"
    by (simp_all add: savefig_def)
  show ?thesis
    by (simp add: r s f d t only_logs_iff new_events_def)
qed

lemma makedirs_effect:
  "makedirs p st = (r, st') \<Longrightarrow>
   files st' = files st \<and> dirs st \<subseteq> dirs st' \<and> new_events st st' = [MakeDirs p]
   \<and> only_logs (\<lambda>e. e = MakeDirs p) st st'
   \<and> (r = Inr () \<longrightarrow> p \<in> dirs st' \<and> p \<noteq> [] \<and> dirs st' = insert p (dirs st))"
  by (auto simp: makedirs_def Let_def only_logs_iff new_events_def split: if_splits)

lemma load_data_effect:
  "load_data w fn st = (r, st') \<Longrightarrow>
   files st' = files st \<and> dirs st' = dirs st \<and> only_logs (\<lambda>e. \<exists>s. e = Print s) st st'"
  by (auto simp: load_data_def py_print_def only_logs_iff split: sum.splits)

subsection \<open>The insight requester\<close>

lemma non_2xx_fails:
  "non_2xx_or_transport_error out \<Longrightarrow> \<exists>e. chat_reply out = Inl e"
  by (auto simp: non_2xx_or_transport_error_def chat_reply_def split: http_result.splits)

lemma key_absent_extract:
  assumes ka: "key_absent body"
  shows "extract_content body = Inr (JStr '''')"
proof -
  from ka obtain kvs where b: "body = JObj kvs"
    by (cases body) (simp_all add: key_absent_def)
  show ?thesis
  proof (cases "map_of kvs ''choices''")
    case None
    then show ?thesis by (simp add: extract_content_def b)
  next
    case (Some cs)
    from ka b Some obtain xs where cs: "cs = JArr xs"
      by (cases cs) (simp_all add: key_absent_def)
    from ka b Some cs obtain x rest where xs: "xs = x # rest"
      by (cases xs) (simp_all add: key_absent_def)
    from ka b Some cs xs obtain c where x: "x = JObj c"
      by (cases x) (simp_all add: key_absent_def)
    show ?thesis
    proof (cases "map_of c ''message''")
      case None
      then show ?thesis by (simp add: extract_content_def b Some cs xs x)
    next
      case (Some m)
      note msg = Some
      from ka b \<open>map_of kvs ''choices'' = Some cs\<close> cs xs x msg
      obtain mm where m: "m = JObj mm" and c: "map_of mm ''content'' = None"
        by (cases m) (simp_all add: key_absent_def)
      show ?thesis
        by (simp add: extract_content_def b \<open>map_of kvs ''choices'' = Some cs\<close> cs xs x msg m c)
    qed
  qed
qed

lemma get_openai_response_key:
  "environ w ''OPENAI_API_KEY'' = Some key \<Longrightarrow> key \<noteq> [] \<Longrightarrow>
   get_openai_response w prompt st =
     (case retry 3 2 (chat w (make_request key prompt)) st of
        (Inl e, st1) \<Rightarrow> (Inl (Uncaught e), st1)
      | (Inr v, st1) \<Rightarrow> (Inr v, st1))"
  by (simp add: get_openai_response_def)

text \<open>
  Claim C2, as amended. For every HTTP 200 response whose JSON body is a dict in which an
  expected key is absent from the dict that should hold it (no \<^verbatim>\<open>choices\<close> in the body;
  or no \<^verbatim>\<open>message\<close> in the first choice, itself a dict; or no \<^verbatim>\<open>content\<close> in the
  message, itself a dict), \<^verbatim>\<open>chat()\<close> returns the empty text, and
  \<^verbatim>\<open>get_openai_response\<close> returns it after a single request, without a retry.
\<close>

theorem absent_key_gives_empty_text:
  assumes "environ w ''OPENAI_API_KEY'' = Some key" and "key \<noteq> []"
    and "http_post w (http_calls st) (make_request key prompt) = Responded r"
    and "status_code r = 200" and "json_body r = Some body" and "key_absent body"
  shows "chat_reply (Responded r) = Inr (JStr '''')
    \<and> get_openai_response w prompt st
        = (Inr (JStr ''''), emit (HttpPost (make_request key prompt)) st)"
proof -
  have r: "chat_reply (Responded r) = Inr (JStr '''')"
    using assms(4-6) by (simp add: chat_reply_def key_absent_extract)
  show ?thesis
    using assms(1-3) r by (simp add: get_openai_response_key retry_chat_cases)
qed

theorem absent_key_gives_empty_text_witness:
  "get_openai_response (demo_world (server_reply (JObj [(''choices'', JArr [JObj [(''message'', JObj [])]])])))
      ''prompt'' demo_state
   = (Inr (JStr ''''), emit (HttpPost (make_request ''sk-test'' ''prompt'')) demo_state)"
  using absent_key_gives_empty_text
    [of "demo_world (server_reply (JObj [(''choices'', JArr [JObj [(''message'', JObj [])]])]))"
        "''sk-test''" demo_state "''prompt''"
        "\<lparr>status_code = 200, resp_text = [], json_body = Some (JObj [(''choices'', JArr [JObj [(''message'', JObj [])]])])\<rparr>"
        "JObj [(''choices'', JArr [JObj [(''message'', JObj [])]])]"]
  by (simp add: demo_world_def server_reply_def key_absent_def)

text \<open>
  Claim C2 as stated fails: the body \<^verbatim>\<open>{"choices": [{"message": null}]}\<close> of a 200
  response lacks the field \<^verbatim>\<open>content\<close>; \<^verbatim>\<open>None.get\<close> raises AttributeError, every
  attempt raises it again, and the run ends with tenacity's RetryError.
\<close>

theorem lenient_parsing_counterexample:
  "\<not> has_expected_fields (JObj [(''choices'', JArr [JObj [(''message'', JNull)]])])
   \<and> chat_reply (server_reply (JObj [(''choices'', JArr [JObj [(''message'', JNull)]])]) 0
                   (make_request ''sk-test'' ''prompt''))
       = Inl AttributeError
   \<and> fst (get_openai_response
            (demo_world (server_reply (JObj [(''choices'', JArr [JObj [(''message'', JNull)]])])))
            ''prompt'' demo_state)
       = Inl (Uncaught (RetryError AttributeError))"
  by (simp add: has_expected_fields_def server_reply_def chat_reply_def extract_content_def
        get_openai_response_def retry_chat_cases demo_world_def Let_def)

text \<open>An empty list of choices is not covered by the defaults either: \<^verbatim>\<open>[][0]\<close>.\<close>

lemma empty_choices_raises:
  "chat_reply (server_reply (JObj [(''choices'', JArr [])]) n req) = Inl IndexError"
  by (simp add: server_reply_def chat_reply_def extract_content_def)

subsection \<open>The visualizer\<close>

lemma df_empty_corr:
  "df_empty (df_corr w df) \<longleftrightarrow> filter col_numeric (df_columns df) = []"
  by (simp add: df_empty_def df_corr_def Let_def)

lemma only_logs_after_emit:
  "only_logs B (emit e st) st' \<Longrightarrow> A e \<Longrightarrow> (\<And>x. B x \<Longrightarrow> A x) \<Longrightarrow> only_logs A st st'"
  by (auto simp: only_logs_iff list_all_iff)

lemma chart1_step_effect:
  assumes "chart1_step w df folder st = (r, st')"
  shows "dirs st' = dirs st
    \<and> only_logs (\<lambda>e. e = Heatmap (df_corr w df) \<or> e = WriteFile (chart1_path folder)) st st'
    \<and> (\<forall>q. q \<noteq> chart1_path folder \<longrightarrow> files st' q = files st q)"
proof (cases "df_empty (df_corr w df)")
  case True
  with assms show ?thesis by (auto simp: chart1_step_def Let_def)
next
  case False
  show ?thesis
  proof (cases "render_heatmap w (df_corr w df)")
    case (Inl e)
    with assms False show ?thesis
      by (auto simp: chart1_step_def Let_def only_logs_iff)
  next
    case (Inr png)
    with assms False have
      s: "savefig (chart1_path folder) png (emit (Heatmap (df_corr w df)) st) = (r, st')"
      by (simp add: chart1_step_def Let_def)
    from savefig_effect [OF s] show ?thesis
      by (auto intro: only_logs_after_emit)
  qed
qed

lemma chart2_step_effect:
  assumes "chart2_step w df folder st = (r, st')"
  shows "dirs st' = dirs st
    \<and> only_logs (\<lambda>e. is_histplot e \<or> e = WriteFile (chart2_path folder)) st st'
    \<and> (\<forall>q. q \<noteq> chart2_path folder \<longrightarrow> files st' q = files st q)"
proof (cases "''average_rating'' \<in> set (map col_name (df_columns df))")
  case False
  with assms show ?thesis by (auto simp: chart2_step_def)
next
  case True
  show ?thesis
  proof (cases "df_getitem df ''average_rating''")
    case (Inl e)
    with assms True show ?thesis by (auto simp: chart2_step_def)
  next
    case (Inr s)
    note gi = Inr
    show ?thesis
    proof (cases "render_hist w (dropna s)")
      case (Inl e)
      with assms True gi show ?thesis
        by (auto simp: chart2_step_def Let_def only_logs_iff)
    next
      case (Inr png)
      with assms True gi have
        s: "savefig (chart2_path folder) png (emit (HistPlot (dropna s)) st) = (r, st')"
        by (simp add: chart2_step_def Let_def)
      from savefig_effect [OF s] show ?thesis
        by (auto intro: only_logs_after_emit)
    qed
  qed
qed

lemma generate_visualizations_effect:
  assumes "generate_visualizations w df folder st = (r, st')"
  shows "dirs st' = dirs st
    \<and> only_logs (\<lambda>e. e = Heatmap (df_corr w df) \<or> is_histplot e
                    \<or> e = WriteFile (chart1_path folder) \<or> e = WriteFile (chart2_path folder)) st st'
    \<and> (\<forall>q. q \<noteq> chart1_path folder \<longrightarrow> q \<noteq> chart2_path folder \<longrightarrow> files st' q = files st q)"
proof -
  obtain r1 st1 where c1: "chart1_step w df folder st = (r1, st1)"
    by (cases "chart1_step w df folder st")
  note e1 = chart1_step_effect [OF c1]
  show ?thesis
  proof (cases r1)
    case (Inl e)
    with assms c1 have "st' = st1" by (simp add: generate_visualizations_def)
    with e1 show ?thesis by (auto elim: only_logs_mono)
  next
    case (Inr u)
    with assms c1 have c2: "chart2_step w df folder st1 = (r, st')"
      by (simp add: generate_visualizations_def)
    note e2 = chart2_step_effect [OF c2]
    have "only_logs (\<lambda>e. e = Heatmap (df_corr w df) \<or> is_histplot e
                    \<or> e = WriteFile (chart1_path folder) \<or> e = WriteFile (chart2_path folder)) st st'"
      by (rule only_logs_trans [of _ _ st1])
         (use e1 e2 in \<open>auto elim: only_logs_mono\<close>)
    with e1 e2 show ?thesis by simp
  qed
qed

subsection \<open>The insight requester and the report writer\<close>

lemma get_openai_response_effect:
  assumes "get_openai_response w prompt st = (r, st')"
  shows "files st' = files st \<and> dirs st' = dirs st
    \<and> only_logs (\<lambda>e. is_post e \<or> e = Sleep 2 \<or> e = Print ''Error: OPENAI_API_KEY not set.'') st st'"
proof (cases "environ w ''OPENAI_API_KEY'' = None \<or> environ w ''OPENAI_API_KEY'' = Some []")
  case True
  with assms show ?thesis
    by (auto simp: get_openai_response_def py_print_def only_logs_iff)
next
  case False
  then obtain key where k: "environ w ''OPENAI_API_KEY'' = Some key" "key \<noteq> []"
    by auto
  from assms show ?thesis
    unfolding get_openai_response_key [OF k] retry_chat_cases Let_def
    by (auto simp: only_logs_iff split: sum.splits)
qed

lemma generate_report_effect:
  assumes "generate_report w folder filename summary mv cm insights st = (r, st')"
  shows "dirs st' = dirs st
    \<and> only_logs (\<lambda>e. e = WriteFile (readme_path folder)) st st'
    \<and> (\<forall>q. q \<noteq> readme_path folder \<longrightarrow> files st' q = files st q)"
proof (cases "open_w (readme_path folder) st")
  case (Inl e)
  with assms show ?thesis by (auto simp: generate_report_def)
next
  case (Inr st1)
  note o = open_w_Inr [OF Inr]
  from assms Inr show ?thesis
    by (cases insights) (auto simp: generate_report_def Let_def only_logs_iff o)
qed

subsection \<open>The entry point\<close>

lemma load_data_Inl: "load_data w fn st = (Inl a, st1) \<Longrightarrow> a = SysExit 1"
  by (auto simp: load_data_def split: sum.splits)

lemma main_cases [case_names usage load_failed mkdir_failed viz_failed insight]:
  obtains
    (usage) "length (argv w) \<noteq> 2"
      "main w st = (Inl (SysExit 1), py_print ''Usage: uv run autolysis.py <dataset.csv>'' st)"
  | (load_failed) st1 where "length (argv w) = 2"
      "load_data w (argv w ! 1) st = (Inl (SysExit 1), st1)"
      "main w st = (Inl (SysExit 1), st1)"
  | (mkdir_failed) df st1 e st2 where "length (argv w) = 2"
      "load_data w (argv w ! 1) st = (Inr df, st1)"
      "makedirs (output_folder (argv w ! 1)) st1 = (Inl e, st2)"
      "main w st = (Inl (Uncaught e), st2)"
  | (viz_failed) df st1 st2 e st3 where "length (argv w) = 2"
      "load_data w (argv w ! 1) st = (Inr df, st1)"
      "makedirs (output_folder (argv w ! 1)) st1 = (Inr (), st2)"
      "generate_visualizations w df (output_folder (argv w ! 1)) st2 = (Inl e, st3)"
      "main w st = (Inl (Uncaught e), st3)"
  | (insight) df st1 st2 st3 where "length (argv w) = 2"
      "load_data w (argv w ! 1) st = (Inr df, st1)"
      "makedirs (output_folder (argv w ! 1)) st1 = (Inr (), st2)"
      "generate_visualizations w df (output_folder (argv w ! 1)) st2 = (Inr (), st3)"
proof (cases "length (argv w) = 2")
  case False
  then show ?thesis using usage by (simp add: main_def)
next
  case True
  obtain r1 st1 where l: "load_data w (argv w ! 1) st = (r1, st1)"
    by (cases "load_data w (argv w ! 1) st")
  show ?thesis
  proof (cases r1)
    case (Inl a)
    with l load_data_Inl have l': "load_data w (argv w ! 1) st = (Inl (SysExit 1), st1)"
      by blast
    with True show ?thesis using load_failed [of st1] by (simp add: main_def)
  next
    case (Inr df)
    note l' = l [unfolded Inr]
    obtain r2 st2 where m: "makedirs (output_folder (argv w ! 1)) st1 = (r2, st2)"
      by (cases "makedirs (output_folder (argv w ! 1)) st1")
    show ?thesis
    proof (cases r2)
      case (Inl e)
      with True l' m show ?thesis
        using mkdir_failed [of df st1 e st2] by (simp add: main_def analyze_data_def)
    next
      case (Inr u)
      note m' = m [unfolded Inr]
      obtain r3 st3 where
        v: "generate_visualizations w df (output_folder (argv w ! 1)) st2 = (r3, st3)"
        by (cases "generate_visualizations w df (output_folder (argv w ! 1)) st2")
      show ?thesis
      proof (cases r3)
        case (Inl e)
        with True l' m' v show ?thesis
          using viz_failed [of df st1 st2 e st3] by (simp add: main_def analyze_data_def)
      next
        case (Inr u')
        with True l' m' v show ?thesis
          using insight [of df st1 st2 st3] by simp
      qed
    qed
  qed
qed

lemma main_reaches_insight:
  assumes "length (argv w) = 2"
    and "load_data w (argv w ! 1) st = (Inr df, st1)"
    and "makedirs (output_folder (argv w ! 1)) st1 = (Inr (), st2)"
    and "generate_visualizations w df (output_folder (argv w ! 1)) st2 = (Inr (), st3)"
  shows "main w st =
    (case get_openai_response w
            (build_prompt w df (describe_all w df) (isnull_sum df) (df_corr w df)) st3 of
       (Inl a, st4) \<Rightarrow> (Inl a, st4)
     | (Inr insights, st4) \<Rightarrow>
         (case generate_report w (output_folder (argv w ! 1)) (argv w ! 1) (describe_all w df)
                 (isnull_sum df) (df_corr w df) insights st4 of
            (Inl e, st5) \<Rightarrow> (Inl (Uncaught e), st5)
          | (Inr u, st5) \<Rightarrow>
              (Inr (),
               py_print ([CHR 0xE2, CHR 0x9C, CHR 0x85]
                         @ '' Analysis complete. Output saved in `'' @ output_folder (argv w ! 1)
                         @ ''/README.md` and PNG files.'') st5)))"
  using assms by (simp add: main_def analyze_data_def Let_def del: One_nat_def)

text \<open>Up to the insight step the run sends no request and leaves the report alone.\<close>

lemma histplot_not_post: "is_histplot e \<Longrightarrow> \<not> is_post e"
  by (cases e) simp_all

lemma after_makedirs:
  assumes "load_data w fn st = (r1, st1)"
    and "makedirs folder st1 = (r2, st2)"
  shows "only_logs (\<lambda>e. \<not> is_post e \<and> e \<noteq> WriteFile (readme_path folder')) st st2"
    and "files st2 = files st"
proof -
  let ?A = "\<lambda>e. \<not> is_post e \<and> e \<noteq> WriteFile (readme_path folder')"
  note e1 = load_data_effect [OF assms(1)]
  note e2 = makedirs_effect [OF assms(2)]
  have a1: "only_logs ?A st st1" using e1 by (auto elim!: only_logs_mono)
  have a2: "only_logs ?A st1 st2" using e2 by (auto elim!: only_logs_mono)
  show "only_logs ?A st st2" using a1 a2 by (rule only_logs_trans)
  show "files st2 = files st" using e1 e2 by simp
qed

lemma before_insight:
  assumes "load_data w fn st = (r1, st1)"
    and "makedirs folder st1 = (r2, st2)"
    and "generate_visualizations w df folder st2 = (r3, st3)"
  shows "only_logs (\<lambda>e. \<not> is_post e \<and> e \<noteq> WriteFile (readme_path folder')) st st3"
    and "files st3 (readme_path folder') = files st (readme_path folder')"
proof -
  let ?A = "\<lambda>e. \<not> is_post e \<and> e \<noteq> WriteFile (readme_path folder')"
  note e3 = generate_visualizations_effect [OF assms(3)]
  have a3: "only_logs ?A st2 st3" using e3
    by (auto elim!: only_logs_mono dest: histplot_not_post)
  show "only_logs ?A st st3"
    using after_makedirs(1) [OF assms(1,2)] a3 by (rule only_logs_trans)
  show "files st3 (readme_path folder') = files st (readme_path folder')"
    using e3 after_makedirs(2) [OF assms(1,2)] by simp
qed

subsection \<open>Exhausted retries\<close>

lemma attempt_fails_iff: "attempt_fails out \<longleftrightarrow> (\<exists>e. chat_reply out = Inl e)"
  by (cases "chat_reply out") (simp_all add: attempt_fails_def)

lemma non_2xx_attempt_fails: "non_2xx_or_transport_error out \<Longrightarrow> attempt_fails out"
  by (simp add: attempt_fails_iff non_2xx_fails)

lemma insight_exhausted:
  assumes "environ w ''OPENAI_API_KEY'' = Some key" and "key \<noteq> []"
    and "attempt_fails (http_post w (http_calls st) (make_request key prompt))"
    and "attempt_fails (http_post w (http_calls st + 1) (make_request key prompt))"
    and "attempt_fails (http_post w (http_calls st + 2) (make_request key prompt))"
  shows "\<exists>e. chat_reply (http_post w (http_calls st + 2) (make_request key prompt)) = Inl e
    \<and> get_openai_response w prompt st =
        (Inl (Uncaught (RetryError e)),
         emit (HttpPost (make_request key prompt))
           (emit (Sleep 2)
             (emit (HttpPost (make_request key prompt))
               (emit (Sleep 2)
                 (emit (HttpPost (make_request key prompt)) st)))))"
  using assms(3-5)
  by (auto simp: attempt_fails_iff get_openai_response_key [OF assms(1,2)] retry_chat_cases Let_def)

lemma insight_aborts:
  assumes "\<forall>req. attempt_fails (http_post w (http_calls st) req)"
    and "\<forall>req. attempt_fails (http_post w (http_calls st + 1) req)"
    and "\<forall>req. attempt_fails (http_post w (http_calls st + 2) req)"
  shows "\<exists>a. fst (get_openai_response w prompt st) = Inl a"
proof (cases "environ w ''OPENAI_API_KEY'' = None \<or> environ w ''OPENAI_API_KEY'' = Some []")
  case True
  then show ?thesis by (auto simp: get_openai_response_def)
next
  case False
  then obtain key where k: "environ w ''OPENAI_API_KEY'' = Some key" "key \<noteq> []"
    by auto
  from insight_exhausted [OF k, of st prompt] assms show ?thesis
    by auto
qed

section \<open>The claims about the remote call\<close>

lemma quiet_http_calls:
  "only_logs (\<lambda>e. \<not> is_post e \<and> e \<noteq> WriteFile p) st st' \<Longrightarrow> http_calls st' = http_calls st"
  by (erule only_logs_http_calls) simp

text \<open>
  Claim C4. With the credential variable unset, \<^verbatim>\<open>get_openai_response\<close> prints its
  diagnostic and leaves with \<^verbatim>\<open>sys.exit(1)\<close> without sending a request; and every run of
  the program in such an environment ends with exit status 1 having sent no HTTP request
  at all.
\<close>

theorem missing_credential_exits_before_any_request:
  assumes "environ w ''OPENAI_API_KEY'' = None"
  shows "get_openai_response w prompt st
           = (Inl (SysExit 1), py_print ''Error: OPENAI_API_KEY not set.'' st)
    \<and> http_calls (py_print ''Error: OPENAI_API_KEY not set.'' st) = http_calls st
    \<and> exit_status (fst (main w st0)) = 1
    \<and> http_calls (snd (main w st0)) = http_calls st0"
proof -
  have g: "\<And>p s. get_openai_response w p s
             = (Inl (SysExit 1), py_print ''Error: OPENAI_API_KEY not set.'' s)"
    using assms by (simp add: get_openai_response_def)
  have m: "exit_status (fst (main w st0)) = 1 \<and> http_calls (snd (main w st0)) = http_calls st0"
  proof (cases w st0 rule: main_cases)
    case usage
    then show ?thesis by (simp add: py_print_def)
  next
    case (load_failed st1)
    from load_data_effect [OF load_failed(2)] have "http_calls st1 = http_calls st0"
      by (auto elim!: only_logs_http_calls)
    with load_failed show ?thesis by simp
  next
    case (mkdir_failed df st1 e st2)
    from after_makedirs(1) [OF mkdir_failed(2,3)] have "http_calls st2 = http_calls st0"
      by (rule quiet_http_calls)
    with mkdir_failed show ?thesis by simp
  next
    case (viz_failed df st1 st2 e st3)
    from before_insight(1) [OF viz_failed(2,3,4)] have "http_calls st3 = http_calls st0"
      by (rule quiet_http_calls)
    with viz_failed show ?thesis by simp
  next
    case (insight df st1 st2 st3)
    from before_insight(1) [OF insight(2,3,4)] have "http_calls st3 = http_calls st0"
      by (rule quiet_http_calls)
    then show ?thesis
      by (simp add: main_reaches_insight [OF insight] g py_print_def)
  qed
  show ?thesis using g m by (simp add: py_print_def)
qed

theorem missing_credential_exits_before_any_request_witness:
  "environ ((demo_world server_down)\<lparr>environ := Map.empty\<rparr>) ''OPENAI_API_KEY'' = None
   \<and> exit_status (fst (main ((demo_world server_down)\<lparr>environ := Map.empty\<rparr>) demo_state)) = 1
   \<and> http_calls (snd (main ((demo_world server_down)\<lparr>environ := Map.empty\<rparr>) demo_state)) = 0"
  using missing_credential_exits_before_any_request
    [of "(demo_world server_down)\<lparr>environ := Map.empty\<rparr>" "[]" demo_state demo_state]
  by (simp add: demo_world_def demo_state_def http_calls_def)

lemma no_write_in_quiet:
  "only_logs (\<lambda>e. \<not> is_post e \<and> e \<noteq> WriteFile p) st st' \<Longrightarrow>
   WriteFile p \<notin> set (new_events st st')"
  by (auto dest!: only_logs_new_events simp: list_all_iff)

lemma insight_no_write:
  assumes "get_openai_response w prompt st = (r, st')"
  shows "WriteFile p \<notin> set (new_events st st')"
proof
  assume "WriteFile p \<in> set (new_events st st')"
  moreover from get_openai_response_effect [OF assms]
  have "list_all (\<lambda>e. is_post e \<or> e = Sleep 2 \<or> e = Print ''Error: OPENAI_API_KEY not set.'')
          (new_events st st')"
    by (simp add: only_logs_new_events)
  ultimately have "is_post (WriteFile p) \<or> WriteFile p = Sleep 2
      \<or> WriteFile p = Print ''Error: OPENAI_API_KEY not set.''"
    unfolding list_all_iff by blast
  then show False by simp
qed

text \<open>
  Claim C5. If the remote call fails on all three attempts, the run ends with a non-zero
  exit status and without writing \<^verbatim>\<open>README.md\<close>: the report writer is never reached. When
  the run gets as far as the insight step with a credential, it ends in tenacity's
  RetryError after exactly three requests, two seconds apart.
\<close>

theorem exhausted_retries_leave_no_report:
  assumes f0: "\<forall>req. attempt_fails (http_post w (http_calls st) req)"
    and f1: "\<forall>req. attempt_fails (http_post w (http_calls st + 1) req)"
    and f2: "\<forall>req. attempt_fails (http_post w (http_calls st + 2) req)"
  shows "exit_status (fst (main w st)) \<noteq> 0
    \<and> WriteFile (readme_path (output_folder (argv w ! 1))) \<notin> set (new_events st (snd (main w st)))
    \<and> files (snd (main w st)) (readme_path (output_folder (argv w ! 1)))
        = files st (readme_path (output_folder (argv w ! 1)))
    \<and> (\<forall>key df st1 st2 st3.
          environ w ''OPENAI_API_KEY'' = Some key \<and> key \<noteq> [] \<and> length (argv w) = 2
          \<and> load_data w (argv w ! 1) st = (Inr df, st1)
          \<and> makedirs (output_folder (argv w ! 1)) st1 = (Inr (), st2)
          \<and> generate_visualizations w df (output_folder (argv w ! 1)) st2 = (Inr (), st3)
          \<longrightarrow> (\<exists>e req. fst (main w st) = Inl (Uncaught (RetryError e))
                \<and> new_events st3 (snd (main w st))
                    = [HttpPost req, Sleep 2, HttpPost req, Sleep 2, HttpPost req]))"
    (is "?status \<and> ?nowrite \<and> ?same \<and> ?three")
proof -
  let ?p = "readme_path (output_folder (argv w ! 1))"
  have a: "?status \<and> ?nowrite \<and> ?same"
  proof (cases w st rule: main_cases)
    case usage
    then show ?thesis by (simp add: py_print_def new_events_def)
  next
    case (load_failed st1)
    from load_data_effect [OF load_failed(2)] load_failed(3) show ?thesis
      by (auto dest!: only_logs_new_events simp: list_all_iff)
  next
    case (mkdir_failed df st1 e st2)
    from after_makedirs(1) [OF mkdir_failed(2,3), of "output_folder (argv w ! 1)"]
      after_makedirs(2) [OF mkdir_failed(2,3)] mkdir_failed(4)
    show ?thesis by (auto dest: no_write_in_quiet)
  next
    case (viz_failed df st1 st2 e st3)
    from before_insight [OF viz_failed(2,3,4), of "output_folder (argv w ! 1)"] viz_failed(5)
    show ?thesis by (auto dest: no_write_in_quiet)
  next
    case (insight df st1 st2 st3)
    let ?prompt = "build_prompt w df (describe_all w df) (isnull_sum df) (df_corr w df)"
    note b = before_insight [OF insight(2,3,4), of "output_folder (argv w ! 1)"]
    have h: "http_calls st3 = http_calls st" using b(1) by (rule quiet_http_calls)
    obtain r4 st4 where g: "get_openai_response w ?prompt st3 = (r4, st4)"
      by (cases "get_openai_response w ?prompt st3")
    from insight_aborts [of w st3 ?prompt] f0 f1 f2 h g obtain a where r4: "r4 = Inl a"
      by auto
    have m: "main w st = (Inl a, st4)"
      by (simp add: main_reaches_insight [OF insight] g r4)
    have a: "exit_status (Inl a) \<noteq> 0"
    proof (cases "environ w ''OPENAI_API_KEY'' = None \<or> environ w ''OPENAI_API_KEY'' = Some []")
      case True
      with g r4 show ?thesis by (auto simp: get_openai_response_def)
    next
      case False
      then obtain key where k: "environ w ''OPENAI_API_KEY'' = Some key" "key \<noteq> []"
        by auto
      from insight_exhausted [OF k, of st3 ?prompt] f0 f1 f2 h g r4 show ?thesis
        by auto
    qed
    note e = get_openai_response_effect [OF g]
    have ne: "new_events st st4 = new_events st st3 @ new_events st3 st4"
      using b(1) e by (auto intro: new_events_trans)
    have "WriteFile ?p \<notin> set (new_events st st4)"
      unfolding ne using no_write_in_quiet [OF b(1)] insight_no_write [OF g] by simp
    with a m e b(2) show ?thesis by simp
  qed
  have t: ?three
  proof (intro allI impI, elim conjE)
    fix key df st1 st2 st3
    assume k: "environ w ''OPENAI_API_KEY'' = Some key" "key \<noteq> []"
      and r: "length (argv w) = 2" "load_data w (argv w ! 1) st = (Inr df, st1)"
        "makedirs (output_folder (argv w ! 1)) st1 = (Inr (), st2)"
        "generate_visualizations w df (output_folder (argv w ! 1)) st2 = (Inr (), st3)"
    let ?prompt = "build_prompt w df (describe_all w df) (isnull_sum df) (df_corr w df)"
    have h: "http_calls st3 = http_calls st"
      using before_insight(1) [OF r(2,3,4)] by (rule quiet_http_calls)
    from insight_exhausted [OF k, of st3 ?prompt] f0 f1 f2 h
    obtain e where g: "get_openai_response w ?prompt st3 =
        (Inl (Uncaught (RetryError e)),
         emit (HttpPost (make_request key ?prompt))
           (emit (Sleep 2)
             (emit (HttpPost (make_request key ?prompt))
               (emit (Sleep 2)
                 (emit (HttpPost (make_request key ?prompt)) st3)))))"
      by auto
    show "\<exists>e req. fst (main w st) = Inl (Uncaught (RetryError e))
                \<and> new_events st3 (snd (main w st))
                    = [HttpPost req, Sleep 2, HttpPost req, Sleep 2, HttpPost req]"
      by (simp add: main_reaches_insight [OF r] g new_events_def)
  qed
  from a t show ?thesis by blast
qed

theorem exhausted_retries_leave_no_report_witness:
  "(\<forall>req. attempt_fails (http_post (demo_world server_down) (http_calls demo_state) req))
   \<and> exit_status (fst (main (demo_world server_down) demo_state)) \<noteq> 0
   \<and> WriteFile ''data/README.md'' \<notin> set (trace (snd (main (demo_world server_down) demo_state)))
   \<and> files (snd (main (demo_world server_down) demo_state)) ''data/README.md'' = None"
  using exhausted_retries_leave_no_report [of "demo_world server_down" demo_state]
  by (simp add: demo_world_def demo_state_def server_down_def attempt_fails_def chat_reply_def
        new_events_def readme_path_def path_join_def output_folder_def splitext_def basename_def)

lemma retry_chat_calls:
  "http_calls (snd (retry 3 2 (chat w req) st)) \<le> http_calls st + 3"
  by (simp add: retry_chat_cases Let_def split: sum.splits)

text \<open>
  Claim C1. With a credential, \<^verbatim>\<open>get_openai_response\<close> sends at most three requests. A
  first attempt that returns is not retried. A transport error or a response outside
  200..299 is followed by a sleep of 2 and another attempt, up to the third; when all
  three fail, RetryError with the last exception leaves \<^verbatim>\<open>get_openai_response\<close>
  uncaught, \<^verbatim>\<open>main\<close> does not catch it either, and the exit status is 1.
\<close>

theorem retry_policy:
  assumes k: "environ w ''OPENAI_API_KEY'' = Some key" "key \<noteq> []"
  shows "http_calls (snd (get_openai_response w prompt st)) \<le> http_calls st + 3
    \<and> (\<forall>v. chat_reply (http_post w (http_calls st) (make_request key prompt)) = Inr v \<longrightarrow>
          get_openai_response w prompt st = (Inr v, emit (HttpPost (make_request key prompt)) st))
    \<and> (non_2xx_or_transport_error (http_post w (http_calls st) (make_request key prompt)) \<longrightarrow>
          take 3 (new_events st (snd (get_openai_response w prompt st)))
            = [HttpPost (make_request key prompt), Sleep 2, HttpPost (make_request key prompt)])
    \<and> (non_2xx_or_transport_error (http_post w (http_calls st) (make_request key prompt))
        \<and> non_2xx_or_transport_error (http_post w (http_calls st + 1) (make_request key prompt)) \<longrightarrow>
          new_events st (snd (get_openai_response w prompt st))
            = [HttpPost (make_request key prompt), Sleep 2, HttpPost (make_request key prompt),
               Sleep 2, HttpPost (make_request key prompt)])
    \<and> (non_2xx_or_transport_error (http_post w (http_calls st) (make_request key prompt))
        \<and> non_2xx_or_transport_error (http_post w (http_calls st + 1) (make_request key prompt))
        \<and> non_2xx_or_transport_error (http_post w (http_calls st + 2) (make_request key prompt)) \<longrightarrow>
          (\<exists>e. chat_reply (http_post w (http_calls st + 2) (make_request key prompt)) = Inl e
             \<and> fst (get_openai_response w prompt st) = Inl (Uncaught (RetryError e))
             \<and> exit_status (Inl (Uncaught (RetryError e))) = 1
             \<and> (\<forall>st0 df st1 st2.
                   length (argv w) = 2 \<and> load_data w (argv w ! 1) st0 = (Inr df, st1)
                   \<and> makedirs (output_folder (argv w ! 1)) st1 = (Inr (), st2)
                   \<and> generate_visualizations w df (output_folder (argv w ! 1)) st2 = (Inr (), st)
                   \<and> prompt = build_prompt w df (describe_all w df) (isnull_sum df) (df_corr w df)
                   \<longrightarrow> main w st0 = (Inl (Uncaught (RetryError e)),
                                      snd (get_openai_response w prompt st)))))"
    (is "?bound \<and> ?first \<and> ?second \<and> ?third \<and> ?exhausted")
proof -
  let ?req = "make_request key prompt"
  note g = get_openai_response_key [OF k]
  have b: ?bound
    using retry_chat_calls [of w ?req st]
    by (cases "retry 3 2 (chat w ?req) st") (auto simp: g split: sum.splits)
  have f: ?first
    by (simp add: g retry_chat_cases)
  have s: ?second
    by (auto dest!: non_2xx_fails simp: g retry_chat_cases Let_def new_events_def split: sum.splits)
  have t: ?third
    by (auto dest!: non_2xx_fails simp: g retry_chat_cases Let_def new_events_def split: sum.splits)
  have x: ?exhausted
  proof (intro impI, elim conjE)
    assume "non_2xx_or_transport_error (http_post w (http_calls st) ?req)"
      and "non_2xx_or_transport_error (http_post w (http_calls st + 1) ?req)"
      and "non_2xx_or_transport_error (http_post w (http_calls st + 2) ?req)"
    then have "attempt_fails (http_post w (http_calls st) ?req)"
      and "attempt_fails (http_post w (http_calls st + 1) ?req)"
      and "attempt_fails (http_post w (http_calls st + 2) ?req)"
      by (simp_all add: non_2xx_attempt_fails)
    from insight_exhausted [OF k this] obtain e where
      e: "chat_reply (http_post w (http_calls st + 2) ?req) = Inl e"
      and r: "get_openai_response w prompt st =
        (Inl (Uncaught (RetryError e)),
         emit (HttpPost ?req) (emit (Sleep 2) (emit (HttpPost ?req) (emit (Sleep 2)
           (emit (HttpPost ?req) st)))))"
      by blast
    have "\<forall>st0 df st1 st2.
            length (argv w) = 2 \<and> load_data w (argv w ! 1) st0 = (Inr df, st1)
            \<and> makedirs (output_folder (argv w ! 1)) st1 = (Inr (), st2)
            \<and> generate_visualizations w df (output_folder (argv w ! 1)) st2 = (Inr (), st)
            \<and> prompt = build_prompt w df (describe_all w df) (isnull_sum df) (df_corr w df)
            \<longrightarrow> main w st0 = (Inl (Uncaught (RetryError e)), snd (get_openai_response w prompt st))"
    proof (intro allI impI, elim conjE)
      fix st0 df st1 st2
      assume reach: "length (argv w) = 2" "load_data w (argv w ! 1) st0 = (Inr df, st1)"
        "makedirs (output_folder (argv w ! 1)) st1 = (Inr (), st2)"
        "generate_visualizations w df (output_folder (argv w ! 1)) st2 = (Inr (), st)"
        and p: "prompt = build_prompt w df (describe_all w df) (isnull_sum df) (df_corr w df)"
      show "main w st0 = (Inl (Uncaught (RetryError e)), snd (get_openai_response w prompt st))"
        using r unfolding main_reaches_insight [OF reach] p by simp
    qed
    with e r show "\<exists>e. chat_reply (http_post w (http_calls st + 2) ?req) = Inl e
             \<and> fst (get_openai_response w prompt st) = Inl (Uncaught (RetryError e))
             \<and> exit_status (Inl (Uncaught (RetryError e))) = 1
             \<and> (\<forall>st0 df st1 st2.
                   length (argv w) = 2 \<and> load_data w (argv w ! 1) st0 = (Inr df, st1)
                   \<and> makedirs (output_folder (argv w ! 1)) st1 = (Inr (), st2)
                   \<and> generate_visualizations w df (output_folder (argv w ! 1)) st2 = (Inr (), st)
                   \<and> prompt = build_prompt w df (describe_all w df) (isnull_sum df) (df_corr w df)
                   \<longrightarrow> main w st0 = (Inl (Uncaught (RetryError e)),
                                      snd (get_openai_response w prompt st)))"
      by auto
  qed
  from b f s t x show ?thesis by blast
qed

lemmas run_defs =
  main_def load_data_def analyze_data_def isnull_sum_def df_corr_def df_empty_def
  output_folder_def splitext_def basename_def dirname_def path_join_def path_exists_def
  makedirs_def open_w_def set_content_def savefig_def chart1_path_def chart2_path_def
  readme_path_def df_getitem_def dropna_def chart1_step_def chart2_step_def
  generate_visualizations_def get_openai_response_def retry_chat_cases chat_reply_def
  extract_content_def generate_report_def report_head_def report_embeds_def to_frame_def
  df_head_def build_prompt_def make_request_def emit_def py_print_def http_calls_def
  new_events_def nl_def string_of_nat.simps Let_def

lemmas demo_defs =
  demo_world_def demo_state_def demo_df_def text_df_def bool_df_def server_down_def
  server_status_def server_reply_def no_space_def col_numeric_def

theorem retry_policy_witness:
  "non_2xx_or_transport_error (server_status 503 0 (make_request ''sk-test'' ''prompt''))
   \<and> fst (main (demo_world (server_status 503)) demo_state)
       = Inl (Uncaught (RetryError (ApiError ''API Error: 503 - busy'')))
   \<and> http_calls (snd (main (demo_world (server_status 503)) demo_state)) = 3
   \<and> filter (\<lambda>e. e = Sleep 2) (trace (snd (main (demo_world (server_status 503)) demo_state)))
       = [Sleep 2, Sleep 2]"
  using retry_policy
    [of "demo_world (server_status 503)" "''sk-test''"
        "build_prompt (demo_world (server_status 503)) demo_df
           (describe_all (demo_world (server_status 503)) demo_df) (isnull_sum demo_df)
           (df_corr (demo_world (server_status 503)) demo_df)"
        "snd (generate_visualizations (demo_world (server_status 503)) demo_df ''data''
               (snd (makedirs ''data''
                      (snd (load_data (demo_world (server_status 503)) ''data.csv'' demo_state)))))"]
  by (simp add: run_defs demo_defs non_2xx_or_transport_error_def)

subsection \<open>What the chart steps write\<close>

lemma chart1_step_skip:
  "filter col_numeric (df_columns df) = [] \<Longrightarrow> chart1_step w df folder st = (Inr (), st)"
  by (simp add: chart1_step_def Let_def df_empty_corr)

lemma chart2_step_skip:
  "''average_rating'' \<notin> set (map col_name (df_columns df)) \<Longrightarrow>
   chart2_step w df folder st = (Inr (), st)"
  by (simp add: chart2_step_def)

lemma chart1_step_attempt:
  assumes "filter col_numeric (df_columns df) \<noteq> []"
  shows "\<exists>evs. new_events st (snd (chart1_step w df folder st)) = Heatmap (df_corr w df) # evs"
proof (cases "render_heatmap w (df_corr w df)")
  case (Inl e)
  with assms show ?thesis
    by (simp add: chart1_step_def Let_def df_empty_corr new_events_def)
next
  case (Inr png)
  obtain r st' where
    s: "savefig (chart1_path folder) png (emit (Heatmap (df_corr w df)) st) = (r, st')"
    by (cases "savefig (chart1_path folder) png (emit (Heatmap (df_corr w df)) st)")
  from savefig_effect [OF s] have "only_logs (\<lambda>e. e = WriteFile (chart1_path folder))
      (emit (Heatmap (df_corr w df)) st) st'"
    by simp
  then obtain evs where "trace st' = trace st @ Heatmap (df_corr w df) # evs"
    by (auto simp: only_logs_iff)
  with assms Inr s show ?thesis
    by (simp add: chart1_step_def Let_def df_empty_corr new_events_def)
qed

lemma chart1_step_written:
  assumes "chart1_step w df folder st = (Inr (), st')"
    and "filter col_numeric (df_columns df) \<noteq> []"
  shows "\<exists>png. render_heatmap w (df_corr w df) = Inr png
           \<and> files st' (chart1_path folder) = Some png
           \<and> new_events st st' = [Heatmap (df_corr w df), WriteFile (chart1_path folder)]"
proof (cases "render_heatmap w (df_corr w df)")
  case (Inl e)
  with assms show ?thesis by (simp add: chart1_step_def Let_def df_empty_corr)
next
  case (Inr png)
  with assms have
    s: "savefig (chart1_path folder) png (emit (Heatmap (df_corr w df)) st) = (Inr (), st')"
    by (simp add: chart1_step_def Let_def df_empty_corr)
  from savefig_effect [OF s] have f: "files st' (chart1_path folder) = Some png"
    and n: "new_events (emit (Heatmap (df_corr w df)) st) st' = [WriteFile (chart1_path folder)]"
    and o: "only_logs (\<lambda>e. e = WriteFile (chart1_path folder)) (emit (Heatmap (df_corr w df)) st) st'"
    by simp_all
  have "only_logs (\<lambda>e. True) st (emit (Heatmap (df_corr w df)) st)"
    by (simp add: only_logs_emit)
  from new_events_trans [OF this o] n
  have "new_events st st' = [Heatmap (df_corr w df), WriteFile (chart1_path folder)]"
    by (simp add: new_events_def)
  with Inr f show ?thesis by simp
qed

lemma getitem_present:
  assumes "k \<in> set (map col_name (df_columns df))"
  shows "\<exists>c. find (\<lambda>c. col_name c = k) (df_columns df) = Some c \<and> col_name c = k
           \<and> c \<in> set (df_columns df)
           \<and> df_getitem df k = Inr (zip (row_index df) (col_cells c))"
proof (cases "find (\<lambda>c. col_name c = k) (df_columns df)")
  case None
  with assms show ?thesis by (auto simp: find_None_iff)
next
  case (Some c)
  then have "col_name c = k" and "c \<in> set (df_columns df)"
    by (auto simp: find_Some_iff)
  with Some show ?thesis by (simp add: df_getitem_def)
qed

lemma chart2_step_attempt:
  assumes "''average_rating'' \<in> set (map col_name (df_columns df))"
  shows "\<exists>s evs. df_getitem df ''average_rating'' = Inr s
           \<and> new_events st (snd (chart2_step w df folder st)) = HistPlot (dropna s) # evs
           \<and> list_all (\<lambda>e. e = WriteFile (chart2_path folder)) evs"
proof -
  from getitem_present [OF assms] obtain s where gi: "df_getitem df ''average_rating'' = Inr s"
    by blast
  show ?thesis
  proof (cases "render_hist w (dropna s)")
    case (Inl e)
    with assms gi show ?thesis
      by (simp add: chart2_step_def Let_def new_events_def)
  next
    case (Inr png)
    obtain r st' where
      s: "savefig (chart2_path folder) png (emit (HistPlot (dropna s)) st) = (r, st')"
      by (cases "savefig (chart2_path folder) png (emit (HistPlot (dropna s)) st)")
    from savefig_effect [OF s] have "only_logs (\<lambda>e. e = WriteFile (chart2_path folder))
        (emit (HistPlot (dropna s)) st) st'"
      by simp
    then obtain evs where "trace st' = trace st @ HistPlot (dropna s) # evs"
      "list_all (\<lambda>e. e = WriteFile (chart2_path folder)) evs"
      by (auto simp: only_logs_iff)
    with assms gi Inr s show ?thesis
      by (simp add: chart2_step_def Let_def new_events_def)
  qed
qed

lemma chart2_step_written:
  assumes "chart2_step w df folder st = (Inr (), st')"
    and "''average_rating'' \<in> set (map col_name (df_columns df))"
  shows "\<exists>s png. df_getitem df ''average_rating'' = Inr s
           \<and> render_hist w (dropna s) = Inr png
           \<and> files st' (chart2_path folder) = Some png
           \<and> new_events st st' = [HistPlot (dropna s), WriteFile (chart2_path folder)]"
proof -
  from getitem_present [OF assms(2)] obtain s where gi: "df_getitem df ''average_rating'' = Inr s"
    by blast
  show ?thesis
  proof (cases "render_hist w (dropna s)")
    case (Inl e)
    with assms gi show ?thesis by (simp add: chart2_step_def Let_def)
  next
    case (Inr png)
    with assms gi have
      s: "savefig (chart2_path folder) png (emit (HistPlot (dropna s)) st) = (Inr (), st')"
      by (simp add: chart2_step_def Let_def)
    from savefig_effect [OF s] have f: "files st' (chart2_path folder) = Some png"
      and n: "new_events (emit (HistPlot (dropna s)) st) st' = [WriteFile (chart2_path folder)]"
      and o: "only_logs (\<lambda>e. e = WriteFile (chart2_path folder)) (emit (HistPlot (dropna s)) st) st'"
      by simp_all
    have "only_logs (\<lambda>e. True) st (emit (HistPlot (dropna s)) st)"
      by (simp add: only_logs_emit)
    from new_events_trans [OF this o] n
    have "new_events st st' = [HistPlot (dropna s), WriteFile (chart2_path folder)]"
      by (simp add: new_events_def)
    with Inr f gi show ?thesis by simp
  qed
qed

subsection \<open>The whole run\<close>

text \<open>
  The log and the files of a whole run, given what the visualizer does: the other steps
  print, create the folder, talk to the server and write the report.
\<close>

lemma main_effect:
  assumes p: "\<And>s. A (Print s)" and m: "\<And>d. A (MakeDirs d)" and h: "\<And>r. A (HttpPost r)"
    and s: "A (Sleep 2)" and r: "A (WriteFile (readme_path (output_folder (argv w ! 1))))"
    and q: "q \<noteq> readme_path (output_folder (argv w ! 1))"
    and v: "\<And>df st1 st2 r3 st3. load_data w (argv w ! 1) st = (Inr df, st1) \<Longrightarrow>
              generate_visualizations w df (output_folder (argv w ! 1)) st2 = (r3, st3) \<Longrightarrow>
              only_logs A st2 st3 \<and> files st3 q = files st2 q"
  shows "only_logs A st (snd (main w st)) \<and> files (snd (main w st)) q = files st q"
proof (cases w st rule: main_cases)
  case usage
  then show ?thesis by (simp add: py_print_def only_logs_emit p)
next
  case (load_failed st1)
  from load_data_effect [OF load_failed(2)] load_failed(3) show ?thesis
    by (auto elim!: only_logs_mono simp: p)
next
  case (mkdir_failed df st1 e st2)
  from load_data_effect [OF mkdir_failed(2)] have 1: "only_logs A st st1" "files st1 = files st"
    by (auto elim!: only_logs_mono simp: p)
  from makedirs_effect [OF mkdir_failed(3)] have 2: "only_logs A st1 st2" "files st2 = files st1"
    by (auto elim!: only_logs_mono simp: m)
  from 1 2 mkdir_failed(4) show ?thesis by (auto intro: only_logs_trans)
next
  case (viz_failed df st1 st2 e st3)
  from load_data_effect [OF viz_failed(2)] have 1: "only_logs A st st1" "files st1 = files st"
    by (auto elim!: only_logs_mono simp: p)
  from makedirs_effect [OF viz_failed(3)] have 2: "only_logs A st1 st2" "files st2 = files st1"
    by (auto elim!: only_logs_mono simp: m)
  note 3 = v [OF viz_failed(2) viz_failed(4)]
  from 1 2 3 viz_failed(5) show ?thesis by (auto intro: only_logs_trans)
next
  case (insight df st1 st2 st3)
  let ?folder = "output_folder (argv w ! 1)"
  let ?prompt = "build_prompt w df (describe_all w df) (isnull_sum df) (df_corr w df)"
  from load_data_effect [OF insight(2)] have 1: "only_logs A st st1" "files st1 = files st"
    by (auto elim!: only_logs_mono simp: p)
  from makedirs_effect [OF insight(3)] have 2: "only_logs A st1 st2" "files st2 = files st1"
    by (auto elim!: only_logs_mono simp: m)
  note 3 = v [OF insight(2) insight(4)]
  from 1 2 3 have 123: "only_logs A st st3" "files st3 q = files st q"
    by (auto intro: only_logs_trans)
  obtain r4 st4 where g: "get_openai_response w ?prompt st3 = (r4, st4)"
    by (cases "get_openai_response w ?prompt st3")
  from get_openai_response_effect [OF g] have 4: "only_logs A st3 st4" "files st4 = files st3"
    by (auto elim!: only_logs_mono simp: p h s elim: is_post.elims)
  from 123 4 have 1234: "only_logs A st st4" "files st4 q = files st q"
    by (auto intro: only_logs_trans)
  show ?thesis
  proof (cases r4)
    case (Inl a)
    with 1234 g show ?thesis by (simp add: main_reaches_insight [OF insight])
  next
    case (Inr insights)
    obtain r5 st5 where
      gr: "generate_report w ?folder (argv w ! 1) (describe_all w df) (isnull_sum df)
             (df_corr w df) insights st4 = (r5, st5)"
      by (cases "generate_report w ?folder (argv w ! 1) (describe_all w df) (isnull_sum df)
             (df_corr w df) insights st4")
    from generate_report_effect [OF gr] q have 5: "only_logs A st4 st5" "files st5 q = files st4 q"
      by (auto elim!: only_logs_mono simp: r simp del: One_nat_def)
    from 1234 5 have 12345: "only_logs A st st5" "files st5 q = files st q"
      by (auto intro: only_logs_trans)
    have 6: "only_logs A st (py_print x st5)" for x
      unfolding py_print_def
      by (rule only_logs_trans [OF 12345(1)]) (rule only_logs_emit, rule p)
    from 12345 6 g gr Inr show ?thesis
      by (cases r5) (simp_all add: main_reaches_insight [OF insight] py_print_def)
  qed
qed

section \<open>The claims about the analyzer and the visualizer\<close>

lemma load_data_Inr: "load_data w fn st = (Inr df, st1) \<Longrightarrow> read_csv w fn = Inr df"
  by (auto simp: load_data_def split: sum.splits)

lemma histplot_not_heatmap: "is_histplot e \<Longrightarrow> \<not> is_heatmap e"
  by (cases e) simp_all

lemma viz_without_numeric:
  assumes "filter col_numeric (df_columns df) = []"
    and "generate_visualizations w df folder st = (r, st')"
  shows "only_logs (\<lambda>e. \<not> is_heatmap e \<and> e \<noteq> WriteFile (chart1_path folder)) st st'
    \<and> files st' (chart1_path folder) = files st (chart1_path folder)"
proof -
  from assms have c2: "chart2_step w df folder st = (r, st')"
    by (simp add: generate_visualizations_def chart1_step_skip)
  from chart2_step_effect [OF c2] show ?thesis
    by (auto elim!: only_logs_mono dest: histplot_not_heatmap)
qed

lemma viz_without_rating:
  assumes "''average_rating'' \<notin> set (map col_name (df_columns df))"
    and "generate_visualizations w df folder st = (r, st')"
  shows "only_logs (\<lambda>e. \<not> is_histplot e \<and> e \<noteq> WriteFile (chart2_path folder)) st st'
    \<and> files st' (chart2_path folder) = files st (chart2_path folder)"
proof -
  obtain r1 st1 where c1: "chart1_step w df folder st = (r1, st1)"
    by (cases "chart1_step w df folder st")
  from assms c1 have "st' = st1"
    by (cases r1) (simp_all add: generate_visualizations_def chart2_step_skip)
  with chart1_step_effect [OF c1] show ?thesis
    by (auto elim!: only_logs_mono)
qed

lemma no_selected_column:
  assumes "filter numeric_column (df_columns df) = []"
    and "filter boolean_column (df_columns df) = []"
  shows "filter col_numeric (df_columns df) = []"
proof -
  have "\<not> col_numeric c" if "c \<in> set (df_columns df)" for c
  proof -
    from that assms have "\<not> numeric_column c" and "\<not> boolean_column c"
      by (simp_all add: filter_empty_conv)
    then show ?thesis
      by (cases "col_dtype c") (simp_all add: col_numeric_def numeric_column_def boolean_column_def)
  qed
  then show ?thesis by (simp add: filter_empty_conv)
qed

text \<open>
  Claim C6 as stated fails. \<^verbatim>\<open>numeric_only=True\<close> keeps boolean columns: a table of
  two boolean columns has no numeric column, yet its correlation matrix is not empty,
  and a run on the CSV \<^verbatim>\<open>flags.csv\<close> that loads to it draws the heatmap and writes
  \<^verbatim>\<open>flags/chart1.png\<close>.
\<close>

theorem zero_numeric_columns_counterexample:
  "filter numeric_column (df_columns bool_df) = []
   \<and> \<not> df_empty (snd (snd (analyze_data (demo_world server_down) bool_df)))
   \<and> read_csv ((demo_world server_down)\<lparr>argv := [''autolysis.py'', ''flags.csv'']\<rparr>) ''flags.csv''
       = Inr bool_df
   \<and> list_ex is_heatmap
        (trace (snd (main ((demo_world server_down)\<lparr>argv := [''autolysis.py'', ''flags.csv'']\<rparr>)
                      demo_state)))
   \<and> files (snd (main ((demo_world server_down)\<lparr>argv := [''autolysis.py'', ''flags.csv'']\<rparr>)
                   demo_state)) ''flags/chart1.png'' = Some ''PNG1''"
  by (simp add: run_defs demo_defs numeric_column_def)

text \<open>
  Claim C6, as amended. For a table with no numeric and no boolean column the analyzer
  returns the empty correlation matrix (the analyzer has no failing path), the heatmap
  step is skipped and the visualizer neither draws a heatmap nor writes
  \<^verbatim>\<open>chart1.png\<close>; the same holds for the whole run on a CSV that loads to such a table.
\<close>

theorem no_numeric_or_boolean_columns_no_heatmap:
  assumes numeric: "filter numeric_column (df_columns df) = []"
    and boolean: "filter boolean_column (df_columns df) = []"
  shows "snd (snd (analyze_data w df)) = \<lparr>row_index = [], df_columns = []\<rparr>
    \<and> df_empty (snd (snd (analyze_data w df)))
    \<and> chart1_step w df folder st = (Inr (), st)
    \<and> list_all (\<lambda>e. \<not> is_heatmap e \<and> e \<noteq> WriteFile (chart1_path folder))
         (new_events st (snd (generate_visualizations w df folder st)))
    \<and> files (snd (generate_visualizations w df folder st)) (chart1_path folder)
        = files st (chart1_path folder)
    \<and> (read_csv w (argv w ! 1) = Inr df \<longrightarrow>
         list_all (\<lambda>e. \<not> is_heatmap e \<and> e \<noteq> WriteFile (chart1_path (output_folder (argv w ! 1))))
           (new_events st0 (snd (main w st0)))
         \<and> files (snd (main w st0)) (chart1_path (output_folder (argv w ! 1)))
             = files st0 (chart1_path (output_folder (argv w ! 1))))"
proof -
  note none = no_selected_column [OF numeric boolean]
  have a: "snd (snd (analyze_data w df)) = \<lparr>row_index = [], df_columns = []\<rparr>"
    using none by (simp add: analyze_data_def df_corr_def)
  obtain r st' where v: "generate_visualizations w df folder st = (r, st')"
    by (cases "generate_visualizations w df folder st")
  note b = viz_without_numeric [OF none v]
  have c: "read_csv w (argv w ! 1) = Inr df \<longrightarrow>
         list_all (\<lambda>e. \<not> is_heatmap e \<and> e \<noteq> WriteFile (chart1_path (output_folder (argv w ! 1))))
           (new_events st0 (snd (main w st0)))
         \<and> files (snd (main w st0)) (chart1_path (output_folder (argv w ! 1)))
             = files st0 (chart1_path (output_folder (argv w ! 1)))"
  proof
    assume rc: "read_csv w (argv w ! 1) = Inr df"
    let ?A = "\<lambda>e. \<not> is_heatmap e \<and> e \<noteq> WriteFile (chart1_path (output_folder (argv w ! 1)))"
    have "only_logs ?A st0 (snd (main w st0))
      \<and> files (snd (main w st0)) (chart1_path (output_folder (argv w ! 1)))
          = files st0 (chart1_path (output_folder (argv w ! 1)))"
    proof (rule main_effect)
      fix df' st1 st2 r3 st3
      assume "load_data w (argv w ! 1) st0 = (Inr df', st1)"
        and g: "generate_visualizations w df' (output_folder (argv w ! 1)) st2 = (r3, st3)"
      with rc have "df' = df" by (auto dest: load_data_Inr)
      with viz_without_numeric [OF none] g
      show "only_logs ?A st2 st3 \<and> files st3 (chart1_path (output_folder (argv w ! 1)))
              = files st2 (chart1_path (output_folder (argv w ! 1)))"
        by simp
    qed simp_all
    then show "list_all ?A (new_events st0 (snd (main w st0)))
         \<and> files (snd (main w st0)) (chart1_path (output_folder (argv w ! 1)))
             = files st0 (chart1_path (output_folder (argv w ! 1)))"
      by (simp add: only_logs_new_events)
  qed
  from a b c v show ?thesis
    by (simp add: df_empty_def chart1_step_skip [OF none] only_logs_new_events)
qed

theorem no_numeric_or_boolean_columns_no_heatmap_witness:
  "filter numeric_column (df_columns text_df) = []
   \<and> filter boolean_column (df_columns text_df) = []
   \<and> df_empty (snd (snd (analyze_data (demo_world server_down) text_df)))
   \<and> list_all (\<lambda>e. \<not> is_heatmap e \<and> e \<noteq> WriteFile ''text/chart1.png'')
        (trace (snd (main ((demo_world server_down)\<lparr>argv := [''autolysis.py'', ''text.csv'']\<rparr>)
                      demo_state)))
   \<and> files (snd (main ((demo_world server_down)\<lparr>argv := [''autolysis.py'', ''text.csv'']\<rparr>)
                   demo_state)) ''text/chart1.png'' = None"
  using no_numeric_or_boolean_columns_no_heatmap
    [of text_df "(demo_world server_down)\<lparr>argv := [''autolysis.py'', ''text.csv'']\<rparr>"
        "''text''" demo_state demo_state]
  by (simp add: demo_defs analyze_data_def df_corr_def df_empty_def new_events_def
        output_folder_def splitext_def basename_def chart1_path_def numeric_column_def
        boolean_column_def)

lemma dropna_values:
  "NaN \<notin> snd ` set (dropna s) \<and> map snd (dropna s) = filter (\<lambda>v. v \<noteq> NaN) (map snd s)"
  by (induction s) (auto simp: dropna_def)

lemma chart1_step_no_histplot:
  assumes "chart1_step w df folder st = (r, st1)"
  shows "\<not> list_ex is_histplot (new_events st st1)"
proof -
  from chart1_step_effect [OF assms]
  have "list_all (\<lambda>e. e = Heatmap (df_corr w df) \<or> e = WriteFile (chart1_path folder))
          (new_events st st1)"
    by (simp add: only_logs_new_events)
  then show ?thesis
    by (auto simp: list_all_iff list_ex_iff)
qed

lemma chart2_step_histplot_iff:
  "list_ex is_histplot (new_events st (snd (chart2_step w df folder st)))
   \<longleftrightarrow> ''average_rating'' \<in> set (map col_name (df_columns df))"
proof (cases "''average_rating'' \<in> set (map col_name (df_columns df))")
  case True
  from chart2_step_attempt [OF True, of st w folder] show ?thesis
    using True by auto
next
  case False
  then show ?thesis by (simp add: chart2_step_skip new_events_def)
qed

text \<open>
  Claim C7. The histogram step (lines 53 to 62) calls \<^verbatim>\<open>histplot\<close> if and only if the
  table has a column named \<^verbatim>\<open>average_rating\<close>, and so does the visualizer whenever the
  heatmap step before it completes. What is plotted is that column with its missing
  entries dropped. Without the column the step does nothing, and neither the visualizer
  nor the whole run plots a histogram or writes \<^verbatim>\<open>chart2.png\<close>.
\<close>

theorem rating_histogram_gate:
  "(list_ex is_histplot (new_events st (snd (chart2_step w df folder st)))
      \<longleftrightarrow> ''average_rating'' \<in> set (map col_name (df_columns df)))
   \<and> (\<forall>st1. chart1_step w df folder st = (Inr (), st1) \<longrightarrow>
         (list_ex is_histplot (new_events st (snd (generate_visualizations w df folder st)))
            \<longleftrightarrow> ''average_rating'' \<in> set (map col_name (df_columns df))))
   \<and> (''average_rating'' \<in> set (map col_name (df_columns df)) \<longrightarrow>
         (\<exists>c evs. find (\<lambda>c. col_name c = ''average_rating'') (df_columns df) = Some c
            \<and> new_events st (snd (chart2_step w df folder st))
                = HistPlot (dropna (zip (row_index df) (col_cells c))) # evs
            \<and> list_all (\<lambda>e. e = WriteFile (chart2_path folder)) evs
            \<and> NaN \<notin> snd ` set (dropna (zip (row_index df) (col_cells c)))
            \<and> map snd (dropna (zip (row_index df) (col_cells c)))
                = filter (\<lambda>v. v \<noteq> NaN) (map snd (zip (row_index df) (col_cells c)))))
   \<and> (''average_rating'' \<notin> set (map col_name (df_columns df)) \<longrightarrow>
         chart2_step w df folder st = (Inr (), st)
         \<and> list_all (\<lambda>e. \<not> is_histplot e \<and> e \<noteq> WriteFile (chart2_path folder))
              (new_events st (snd (generate_visualizations w df folder st)))
         \<and> files (snd (generate_visualizations w df folder st)) (chart2_path folder)
             = files st (chart2_path folder)
         \<and> (read_csv w (argv w ! 1) = Inr df \<longrightarrow>
              list_all (\<lambda>e. \<not> is_histplot e \<and> e \<noteq> WriteFile (chart2_path (output_folder (argv w ! 1))))
                (new_events st0 (snd (main w st0)))
              \<and> files (snd (main w st0)) (chart2_path (output_folder (argv w ! 1)))
                  = files st0 (chart2_path (output_folder (argv w ! 1)))))"
  (is "?step \<and> ?viz \<and> ?data \<and> ?absent")
proof -
  have s: ?step by (rule chart2_step_histplot_iff)
  have v: ?viz
  proof (intro allI impI)
    fix st1
    assume c1: "chart1_step w df folder st = (Inr (), st1)"
    obtain r st' where c2: "chart2_step w df folder st1 = (r, st')"
      by (cases "chart2_step w df folder st1")
    from c1 c2 have g: "generate_visualizations w df folder st = (r, st')"
      by (simp add: generate_visualizations_def)
    from chart1_step_effect [OF c1] chart2_step_effect [OF c2]
    have "new_events st st' = new_events st st1 @ new_events st1 st'"
      by (auto intro: new_events_trans)
    with chart1_step_no_histplot [OF c1] chart2_step_histplot_iff [of st1 w df folder] c2 g
    show "list_ex is_histplot (new_events st (snd (generate_visualizations w df folder st)))
            \<longleftrightarrow> ''average_rating'' \<in> set (map col_name (df_columns df))"
      by simp
  qed
  have d: ?data
  proof
    assume p: "''average_rating'' \<in> set (map col_name (df_columns df))"
    from getitem_present [OF p] obtain c where
      c: "find (\<lambda>c. col_name c = ''average_rating'') (df_columns df) = Some c"
      and gi: "df_getitem df ''average_rating'' = Inr (zip (row_index df) (col_cells c))"
      by blast
    from chart2_step_attempt [OF p, of st w folder] gi obtain evs where
      "new_events st (snd (chart2_step w df folder st))
         = HistPlot (dropna (zip (row_index df) (col_cells c))) # evs"
      "list_all (\<lambda>e. e = WriteFile (chart2_path folder)) evs"
      by auto
    with c dropna_values [of "zip (row_index df) (col_cells c)"]
    show "\<exists>c evs. find (\<lambda>c. col_name c = ''average_rating'') (df_columns df) = Some c
            \<and> new_events st (snd (chart2_step w df folder st))
                = HistPlot (dropna (zip (row_index df) (col_cells c))) # evs
            \<and> list_all (\<lambda>e. e = WriteFile (chart2_path folder)) evs
            \<and> NaN \<notin> snd ` set (dropna (zip (row_index df) (col_cells c)))
            \<and> map snd (dropna (zip (row_index df) (col_cells c)))
                = filter (\<lambda>v. v \<noteq> NaN) (map snd (zip (row_index df) (col_cells c)))"
      by blast
  qed
  have a: ?absent
  proof
    assume n: "''average_rating'' \<notin> set (map col_name (df_columns df))"
    obtain r st' where g: "generate_visualizations w df folder st = (r, st')"
      by (cases "generate_visualizations w df folder st")
    note b = viz_without_rating [OF n g]
    have m: "read_csv w (argv w ! 1) = Inr df \<longrightarrow>
              list_all (\<lambda>e. \<not> is_histplot e \<and> e \<noteq> WriteFile (chart2_path (output_folder (argv w ! 1))))
                (new_events st0 (snd (main w st0)))
              \<and> files (snd (main w st0)) (chart2_path (output_folder (argv w ! 1)))
                  = files st0 (chart2_path (output_folder (argv w ! 1)))"
    proof
      assume rc: "read_csv w (argv w ! 1) = Inr df"
      let ?A = "\<lambda>e. \<not> is_histplot e \<and> e \<noteq> WriteFile (chart2_path (output_folder (argv w ! 1)))"
      have "only_logs ?A st0 (snd (main w st0))
        \<and> files (snd (main w st0)) (chart2_path (output_folder (argv w ! 1)))
            = files st0 (chart2_path (output_folder (argv w ! 1)))"
      proof (rule main_effect)
        fix df' st1 st2 r3 st3
        assume "load_data w (argv w ! 1) st0 = (Inr df', st1)"
          and g': "generate_visualizations w df' (output_folder (argv w ! 1)) st2 = (r3, st3)"
        with rc have "df' = df" by (auto dest: load_data_Inr)
        with viz_without_rating [OF n] g'
        show "only_logs ?A st2 st3 \<and> files st3 (chart2_path (output_folder (argv w ! 1)))
                = files st2 (chart2_path (output_folder (argv w ! 1)))"
          by simp
      qed simp_all
      then show "list_all ?A (new_events st0 (snd (main w st0)))
           \<and> files (snd (main w st0)) (chart2_path (output_folder (argv w ! 1)))
               = files st0 (chart2_path (output_folder (argv w ! 1)))"
        by (simp add: only_logs_new_events)
    qed
    from b m g show "chart2_step w df folder st = (Inr (), st)
         \<and> list_all (\<lambda>e. \<not> is_histplot e \<and> e \<noteq> WriteFile (chart2_path folder))
              (new_events st (snd (generate_visualizations w df folder st)))
         \<and> files (snd (generate_visualizations w df folder st)) (chart2_path folder)
             = files st (chart2_path folder)
         \<and> (read_csv w (argv w ! 1) = Inr df \<longrightarrow>
              list_all (\<lambda>e. \<not> is_histplot e \<and> e \<noteq> WriteFile (chart2_path (output_folder (argv w ! 1))))
                (new_events st0 (snd (main w st0)))
              \<and> files (snd (main w st0)) (chart2_path (output_folder (argv w ! 1)))
                  = files st0 (chart2_path (output_folder (argv w ! 1))))"
      by (simp add: chart2_step_skip [OF n] only_logs_new_events)
  qed
  from s v d a show ?thesis by blast
qed

theorem rating_histogram_gate_witness:
  "''average_rating'' \<in> set (map col_name (df_columns demo_df))
   \<and> fst (chart1_step (demo_world server_down) demo_df ''data'' (demo_state\<lparr>dirs := {''data''}\<rparr>))
       = Inr ()
   \<and> list_ex is_histplot
        (trace (snd (generate_visualizations (demo_world server_down) demo_df ''data''
                       (demo_state\<lparr>dirs := {''data''}\<rparr>))))
   \<and> ''average_rating'' \<notin> set (map col_name (df_columns text_df))
   \<and> read_csv ((demo_world server_down)\<lparr>argv := [''autolysis.py'', ''text.csv'']\<rparr>) ''text.csv''
       = Inr text_df
   \<and> list_all (\<lambda>e. \<not> is_histplot e \<and> e \<noteq> WriteFile ''text/chart2.png'')
        (trace (snd (main ((demo_world server_down)\<lparr>argv := [''autolysis.py'', ''text.csv'']\<rparr>)
                      demo_state)))"
  using rating_histogram_gate
    [of "demo_state\<lparr>dirs := {''data''}\<rparr>" "demo_world server_down" demo_df "''data''" demo_state]
    rating_histogram_gate
    [of demo_state "(demo_world server_down)\<lparr>argv := [''autolysis.py'', ''text.csv'']\<rparr>"
        text_df "''text''" demo_state]
  by (simp add: demo_defs new_events_def output_folder_def splitext_def basename_def
        chart1_path_def chart2_path_def chart1_step_def df_corr_def df_empty_def savefig_def
        open_w_def dirname_def set_content_def emit_def Let_def)

lemma chart1_step_heatmap_iff:
  "list_ex is_heatmap (new_events st (snd (chart1_step w df folder st)))
   \<longleftrightarrow> filter col_numeric (df_columns df) \<noteq> []"
proof (cases "filter col_numeric (df_columns df) = []")
  case True
  then show ?thesis by (simp add: chart1_step_skip new_events_def)
next
  case False
  from chart1_step_attempt [OF False, of st w folder] False show ?thesis by auto
qed

lemma chart2_step_no_heatmap:
  assumes "chart2_step w df folder st = (r, st')"
  shows "\<not> list_ex is_heatmap (new_events st st')"
proof -
  from chart2_step_effect [OF assms]
  have "list_all (\<lambda>e. is_histplot e \<or> e = WriteFile (chart2_path folder)) (new_events st st')"
    by (simp add: only_logs_new_events)
  then show ?thesis
    by (auto simp: list_all_iff list_ex_iff dest: histplot_not_heatmap)
qed

text \<open>
  Claim C3, as amended. The two chart steps run in sequence with no handler between
  them. An exception of the heatmap step leaves the visualizer at once: no histogram is
  plotted and \<^verbatim>\<open>chart2.png\<close> is untouched. When the heatmap step completes (skipped or
  written), the histogram step runs from the state it left. In the other direction the
  independence holds: whatever the histogram step does, the heatmap was attempted exactly
  when there is a numeric or boolean column, and \<^verbatim>\<open>chart1.png\<close> is as the heatmap
  step left it.
\<close>

theorem chart_steps_run_in_sequence:
  "(\<forall>e st1. chart1_step w df folder st = (Inl e, st1) \<longrightarrow>
       generate_visualizations w df folder st = (Inl e, st1)
       \<and> \<not> list_ex is_histplot (new_events st st1)
       \<and> files st1 (chart2_path folder) = files st (chart2_path folder))
   \<and> (\<forall>st1. chart1_step w df folder st = (Inr (), st1) \<longrightarrow>
         generate_visualizations w df folder st = chart2_step w df folder st1)
   \<and> (list_ex is_heatmap (new_events st (snd (generate_visualizations w df folder st)))
        \<longleftrightarrow> filter col_numeric (df_columns df) \<noteq> [])
   \<and> files (snd (generate_visualizations w df folder st)) (chart1_path folder)
       = files (snd (chart1_step w df folder st)) (chart1_path folder)"
  (is "?fail1 \<and> ?ok1 \<and> ?attempt1 \<and> ?file1")
proof -
  have f: ?fail1
  proof (intro allI impI)
    fix e st1
    assume c1: "chart1_step w df folder st = (Inl e, st1)"
    from chart1_step_effect [OF c1] chart1_step_no_histplot [OF c1] c1
    show "generate_visualizations w df folder st = (Inl e, st1)
       \<and> \<not> list_ex is_histplot (new_events st st1)
       \<and> files st1 (chart2_path folder) = files st (chart2_path folder)"
      by (simp add: generate_visualizations_def)
  qed
  have k: ?ok1 by (simp add: generate_visualizations_def)
  obtain r1 st1 where c1: "chart1_step w df folder st = (r1, st1)"
    by (cases "chart1_step w df folder st")
  have "?attempt1 \<and> ?file1"
  proof (cases r1)
    case (Inl e)
    with c1 have "generate_visualizations w df folder st = (Inl e, st1)"
      by (simp add: generate_visualizations_def)
    with c1 chart1_step_heatmap_iff [of st w df folder] show ?thesis by simp
  next
    case (Inr u)
    obtain r st' where c2: "chart2_step w df folder st1 = (r, st')"
      by (cases "chart2_step w df folder st1")
    from c1 c2 Inr have g: "generate_visualizations w df folder st = (r, st')"
      by (simp add: generate_visualizations_def)
    from chart1_step_effect [OF c1] chart2_step_effect [OF c2]
    have n: "new_events st st' = new_events st st1 @ new_events st1 st'"
      and "files st' (chart1_path folder) = files st1 (chart1_path folder)"
      by (auto intro: new_events_trans)
    with chart1_step_heatmap_iff [of st w df folder] chart2_step_no_heatmap [OF c2] c1 g
    show ?thesis by simp
  qed
  with f k show ?thesis by blast
qed

text \<open>
  Claim C3 as stated fails. On the sample table, which has numeric columns and the
  column \<^verbatim>\<open>average_rating\<close>, let rendering the heatmap raise: the exception leaves
  \<^verbatim>\<open>generate_visualizations\<close>, and the histogram is neither plotted nor written.
\<close>

theorem chart_independence_counterexample:
  "''average_rating'' \<in> set (map col_name (df_columns demo_df))
   \<and> generate_visualizations
        ((demo_world server_down)\<lparr>render_heatmap := no_space\<rparr>)
        demo_df ''data'' (demo_state\<lparr>dirs := {''data''}\<rparr>)
       = (Inl (LibraryError ''No space left on device''),
          \<lparr>files = Map.empty, dirs = {''data''},
           trace = [Heatmap (df_corr (demo_world server_down) demo_df)]\<rparr>)
   \<and> \<not> list_ex is_histplot
         (trace (snd (generate_visualizations
            ((demo_world server_down)\<lparr>render_heatmap := no_space\<rparr>)
            demo_df ''data'' (demo_state\<lparr>dirs := {''data''}\<rparr>))))"
  by (simp add: demo_defs generate_visualizations_def chart1_step_def df_corr_def df_empty_def
        emit_def Let_def)

theorem chart_steps_run_in_sequence_witness:
  "fst (chart1_step
         ((demo_world server_down)\<lparr>render_heatmap := no_space\<rparr>)
         demo_df ''data'' (demo_state\<lparr>dirs := {''data''}\<rparr>))
     = Inl (LibraryError ''No space left on device'')
   \<and> fst (generate_visualizations
         ((demo_world server_down)\<lparr>render_heatmap := no_space\<rparr>)
         demo_df ''data'' (demo_state\<lparr>dirs := {''data''}\<rparr>))
     = Inl (LibraryError ''No space left on device'')
   \<and> fst (chart1_step (demo_world server_down) demo_df ''data'' (demo_state\<lparr>dirs := {''data''}\<rparr>))
     = Inr ()
   \<and> files (snd (generate_visualizations (demo_world server_down) demo_df ''data''
                   (demo_state\<lparr>dirs := {''data''}\<rparr>))) ''data/chart1.png'' = Some ''PNG1''
   \<and> files (snd (generate_visualizations
                   ((demo_world server_down)\<lparr>render_hist := no_space\<rparr>)
                   demo_df ''data'' (demo_state\<lparr>dirs := {''data''}\<rparr>))) ''data/chart1.png''
       = Some ''PNG1''"
  using chart_steps_run_in_sequence
    [of "(demo_world server_down)\<lparr>render_heatmap := no_space\<rparr>"
        demo_df "''data''" "demo_state\<lparr>dirs := {''data''}\<rparr>"]
    chart_steps_run_in_sequence
    [of "demo_world server_down" demo_df "''data''" "demo_state\<lparr>dirs := {''data''}\<rparr>"]
    chart_steps_run_in_sequence
    [of "(demo_world server_down)\<lparr>render_hist := no_space\<rparr>"
        demo_df "''data''" "demo_state\<lparr>dirs := {''data''}\<rparr>"]
  by (simp add: run_defs demo_defs)

section \<open>The claims about the report and about partial output\<close>

subsection \<open>The report\<close>

lemma path_exists_open_w:
  "open_w p st = Inr st1 \<Longrightarrow> q \<noteq> p \<Longrightarrow> path_exists q st1 = path_exists q st"
  by (drule open_w_Inr) (auto simp: path_exists_def split: option.splits)

lemma report_embeds_cong:
  "path_exists (chart1_path folder) st = path_exists (chart1_path folder) st' \<Longrightarrow>
   path_exists (chart2_path folder) st = path_exists (chart2_path folder) st' \<Longrightarrow>
   report_embeds folder st = report_embeds folder st'"
  by (simp add: report_embeds_def)

lemma report_embeds_open_w:
  "open_w (readme_path folder) st = Inr st1 \<Longrightarrow> report_embeds folder st1 = report_embeds folder st"
  by (rule report_embeds_cong) (simp_all add: path_exists_open_w)

lemma open_w_same_dirs:
  "dirs st' = dirs st \<Longrightarrow>
   (\<exists>a. open_w p st' = Inr a) = (\<exists>b. open_w p st = Inr b)
   \<and> (\<forall>e. open_w p st' = Inl e \<longleftrightarrow> open_w p st = Inl e)"
  by (auto simp: open_w_def)

text \<open>The report as a function of its inputs and of which chart files exist.\<close>

lemma generate_report_content:
  assumes "open_w (readme_path folder) st = Inr st1"
  shows "generate_report w folder filename summary mv cm insights st =
    (case insights of
       JStr s \<Rightarrow>
         (Inr (),
          set_content (readme_path folder)
            (report_head w filename summary mv cm @ s @ nl @ nl @ ''### Visualizations'' @ nl @ nl
             @ report_embeds folder st) st1)
     | _ \<Rightarrow> (Inl TypeError, set_content (readme_path folder) (report_head w filename summary mv cm) st1))"
  using assms report_embeds_open_w [OF assms]
  by (cases insights) (simp_all add: generate_report_def Let_def)



lemma path_exists_iff: "path_exists p st \<longleftrightarrow> files st p \<noteq> None \<or> p \<in> dirs st"
  by (simp add: path_exists_def split: option.splits)

text \<open>
  Claim C9. The report the writer leaves in \<^verbatim>\<open>README.md\<close>, and whether it raises, depend
  only on its arguments and on which of the two chart files exist: two states of the
  disk that agree on that (and in which the file can be opened) give the same bytes,
  whatever \<^verbatim>\<open>README.md\<close> held before. Running the writer a second time on the state it
  left changes no file and no directory.
\<close>

theorem report_deterministic:
  "((\<exists>a. open_w (readme_path folder) st = Inr a) \<and> (\<exists>b. open_w (readme_path folder) st2 = Inr b)
     \<and> path_exists (chart1_path folder) st = path_exists (chart1_path folder) st2
     \<and> path_exists (chart2_path folder) st = path_exists (chart2_path folder) st2 \<longrightarrow>
       fst (generate_report w folder filename summary mv cm insights st)
         = fst (generate_report w folder filename summary mv cm insights st2)
       \<and> files (snd (generate_report w folder filename summary mv cm insights st)) (readme_path folder)
         = files (snd (generate_report w folder filename summary mv cm insights st2)) (readme_path folder)
       \<and> files (snd (generate_report w folder filename summary mv cm insights st)) (readme_path folder)
         \<noteq> None)
   \<and> fst (generate_report w folder filename summary mv cm insights
            (snd (generate_report w folder filename summary mv cm insights st)))
       = fst (generate_report w folder filename summary mv cm insights st)
   \<and> files (snd (generate_report w folder filename summary mv cm insights
            (snd (generate_report w folder filename summary mv cm insights st))))
       = files (snd (generate_report w folder filename summary mv cm insights st))
   \<and> dirs (snd (generate_report w folder filename summary mv cm insights
            (snd (generate_report w folder filename summary mv cm insights st))))
       = dirs (snd (generate_report w folder filename summary mv cm insights st))"
  (is "?same \<and> ?again")
proof -
  let ?G = "generate_report w folder filename summary mv cm insights"
  have s: ?same
  proof (intro impI, elim conjE exE)
    fix a b
    assume a: "open_w (readme_path folder) st = Inr a"
      and b: "open_w (readme_path folder) st2 = Inr b"
      and "path_exists (chart1_path folder) st = path_exists (chart1_path folder) st2"
      and "path_exists (chart2_path folder) st = path_exists (chart2_path folder) st2"
    then have e: "report_embeds folder st = report_embeds folder st2"
      by (rule_tac report_embeds_cong)
    show "fst (?G st) = fst (?G st2)
       \<and> files (snd (?G st)) (readme_path folder) = files (snd (?G st2)) (readme_path folder)
       \<and> files (snd (?G st)) (readme_path folder) \<noteq> None"
      by (cases insights)
         (simp_all add: generate_report_content [OF a] generate_report_content [OF b] e)
  qed
  have g: ?again
  proof (cases "open_w (readme_path folder) st")
    case (Inl e)
    then show ?thesis by (simp add: generate_report_def)
  next
    case (Inr st1)
    note o = open_w_Inr [OF Inr]
    obtain r st' where G: "?G st = (r, st')" by (cases "?G st")
    from generate_report_effect [OF G] have d: "dirs st' = dirs st"
      and f: "\<forall>q. q \<noteq> readme_path folder \<longrightarrow> files st' q = files st q"
      by simp_all
    from open_w_same_dirs [OF d, of "readme_path folder"] Inr
    obtain st1' where o': "open_w (readme_path folder) st' = Inr st1'"
      by auto
    note oo = open_w_Inr [OF o']
    have pe: "path_exists (chart1_path folder) st' = path_exists (chart1_path folder) st"
      "path_exists (chart2_path folder) st' = path_exists (chart2_path folder) st"
      using d f by (simp_all add: path_exists_iff)
    then have e: "report_embeds folder st' = report_embeds folder st"
      by (rule_tac report_embeds_cong)
    from G have c: "(r, st') =
        (case insights of
           JStr s \<Rightarrow>
             (Inr (),
              set_content (readme_path folder)
                (report_head w filename summary mv cm @ s @ nl @ nl @ ''### Visualizations'' @ nl @ nl
                 @ report_embeds folder st) st1)
         | _ \<Rightarrow> (Inl TypeError, set_content (readme_path folder) (report_head w filename summary mv cm) st1))"
      by (simp add: generate_report_content [OF Inr])
    show ?thesis
      unfolding G snd_conv fst_conv generate_report_content [OF o'] e
      using c o oo by (cases insights) auto
  qed
  from s g show ?thesis by blast
qed

theorem report_deterministic_witness:
  "(\<exists>a. open_w (readme_path ''data'')
           \<lparr>files = [''data/chart1.png'' \<mapsto> ''PNG1''], dirs = {''data''}, trace = []\<rparr> = Inr a)
   \<and> (\<exists>b. open_w (readme_path ''data'')
           \<lparr>files = [''data/chart1.png'' \<mapsto> ''PNG0'', ''data/README.md'' \<mapsto> ''old report''],
            dirs = {''data'', ''other''}, trace = [Print ''earlier'']\<rparr> = Inr b)
   \<and> files (snd (generate_report (demo_world server_down) ''data'' ''data.csv'' demo_df
                   (isnull_sum demo_df) (df_corr (demo_world server_down) demo_df) (JStr ''Story'')
                   \<lparr>files = [''data/chart1.png'' \<mapsto> ''PNG1''], dirs = {''data''}, trace = []\<rparr>))
         ''data/README.md''
     = files (snd (generate_report (demo_world server_down) ''data'' ''data.csv'' demo_df
                   (isnull_sum demo_df) (df_corr (demo_world server_down) demo_df) (JStr ''Story'')
                   \<lparr>files = [''data/chart1.png'' \<mapsto> ''PNG0'', ''data/README.md'' \<mapsto> ''old report''],
                    dirs = {''data'', ''other''}, trace = [Print ''earlier'']\<rparr>))
         ''data/README.md''"
  using report_deterministic
    [of "''data''" "\<lparr>files = [''data/chart1.png'' \<mapsto> ''PNG1''], dirs = {''data''}, trace = []\<rparr>"
        "\<lparr>files = [''data/chart1.png'' \<mapsto> ''PNG0'', ''data/README.md'' \<mapsto> ''old report''],
            dirs = {''data'', ''other''}, trace = [Print ''earlier'']\<rparr>"
        "demo_world server_down" "''data.csv''" demo_df "isnull_sum demo_df"
        "df_corr (demo_world server_down) demo_df" "JStr ''Story''"]
  by (simp add: readme_path_def path_join_def open_w_def dirname_def path_exists_def
        chart1_path_def chart2_path_def)

subsection \<open>What a completed visualizer has written\<close>

lemma viz_written:
  assumes "generate_visualizations w df folder st = (Inr (), st')"
  shows "(filter col_numeric (df_columns df) \<noteq> [] \<longrightarrow>
            (\<exists>png. render_heatmap w (df_corr w df) = Inr png
                  \<and> files st' (chart1_path folder) = Some png)
            \<and> WriteFile (chart1_path folder) \<in> set (new_events st st'))
    \<and> (''average_rating'' \<in> set (map col_name (df_columns df)) \<longrightarrow>
            (\<exists>s png. df_getitem df ''average_rating'' = Inr s \<and> render_hist w (dropna s) = Inr png
                  \<and> files st' (chart2_path folder) = Some png)
            \<and> WriteFile (chart2_path folder) \<in> set (new_events st st'))"
proof -
  obtain r1 st1 where c1: "chart1_step w df folder st = (r1, st1)"
    by (cases "chart1_step w df folder st")
  with assms have r1: "r1 = Inr ()"
    by (cases r1) (simp_all add: generate_visualizations_def)
  with assms c1 have c2: "chart2_step w df folder st1 = (Inr (), st')"
    by (simp add: generate_visualizations_def)
  note e1 = chart1_step_effect [OF c1]
  note e2 = chart2_step_effect [OF c2]
  from e1 e2 have n: "new_events st st' = new_events st st1 @ new_events st1 st'"
    by (auto intro: new_events_trans)
  have a: "(\<exists>png. render_heatmap w (df_corr w df) = Inr png
                  \<and> files st' (chart1_path folder) = Some png)
            \<and> WriteFile (chart1_path folder) \<in> set (new_events st st')"
    if "filter col_numeric (df_columns df) \<noteq> []"
    using chart1_step_written [OF c1 [unfolded r1] that] e2 n by auto
  have b: "(\<exists>s png. df_getitem df ''average_rating'' = Inr s \<and> render_hist w (dropna s) = Inr png
                  \<and> files st' (chart2_path folder) = Some png)
            \<and> WriteFile (chart2_path folder) \<in> set (new_events st st')"
    if "''average_rating'' \<in> set (map col_name (df_columns df))"
    using chart2_step_written [OF c2 that] n by auto
  from a b show ?thesis by blast
qed

text \<open>
  Claim C10. A run without the credential that gets through loading, folder creation and
  visualization ends in \<^verbatim>\<open>get_openai_response\<close> with the diagnostic and exit status 1. By
  then the output folder exists, \<^verbatim>\<open>chart1.png\<close> has been written if there is a numeric
  or boolean column and \<^verbatim>\<open>chart2.png\<close> if there is a rating column; \<^verbatim>\<open>README.md\<close>
  has not been written and no request has been sent.
\<close>

theorem missing_credential_leaves_charts:
  assumes key: "environ w ''OPENAI_API_KEY'' = None"
    and argc: "length (argv w) = 2"
    and load: "load_data w (argv w ! 1) st = (Inr df, st1)"
    and mk: "makedirs (output_folder (argv w ! 1)) st1 = (Inr (), st2)"
    and viz: "generate_visualizations w df (output_folder (argv w ! 1)) st2 = (Inr (), st3)"
  shows "main w st = (Inl (SysExit 1), py_print ''Error: OPENAI_API_KEY not set.'' st3)
    \<and> exit_status (fst (main w st)) = 1
    \<and> output_folder (argv w ! 1) \<in> dirs (snd (main w st))
    \<and> MakeDirs (output_folder (argv w ! 1)) \<in> set (new_events st st3)
    \<and> (filter col_numeric (df_columns df) \<noteq> [] \<longrightarrow>
          files (snd (main w st)) (chart1_path (output_folder (argv w ! 1))) \<noteq> None
          \<and> WriteFile (chart1_path (output_folder (argv w ! 1))) \<in> set (new_events st st3))
    \<and> (''average_rating'' \<in> set (map col_name (df_columns df)) \<longrightarrow>
          files (snd (main w st)) (chart2_path (output_folder (argv w ! 1))) \<noteq> None
          \<and> WriteFile (chart2_path (output_folder (argv w ! 1))) \<in> set (new_events st st3))
    \<and> WriteFile (readme_path (output_folder (argv w ! 1))) \<notin> set (new_events st (snd (main w st)))
    \<and> files (snd (main w st)) (readme_path (output_folder (argv w ! 1)))
        = files st (readme_path (output_folder (argv w ! 1)))
    \<and> http_calls (snd (main w st)) = http_calls st"
proof -
  let ?folder = "output_folder (argv w ! 1)"
  let ?err = "''Error: OPENAI_API_KEY not set.''"
  have m: "main w st = (Inl (SysExit 1), py_print ?err st3)"
    using key by (simp add: main_reaches_insight [OF argc load mk viz] get_openai_response_def)
  note e1 = load_data_effect [OF load]
  note e2 = makedirs_effect [OF mk]
  note e3 = generate_visualizations_effect [OF viz]
  note b = before_insight [OF load mk viz, of ?folder]
  have d: "?folder \<in> dirs st3" using e2 e3 by simp
  have o1: "only_logs (\<lambda>e. \<exists>s. e = Print s) st st1" using e1 by simp
  have o2: "only_logs (\<lambda>e. e = MakeDirs ?folder) st1 st2" using e2 by simp
  have o23: "only_logs (\<lambda>e. e = Heatmap (df_corr w df) \<or> is_histplot e
                    \<or> e = WriteFile (chart1_path ?folder) \<or> e = WriteFile (chart2_path ?folder)) st2 st3"
    using e3 by simp
  have n12: "new_events st st2 = new_events st st1 @ new_events st1 st2"
    by (rule new_events_trans [OF o1 o2])
  have o12: "only_logs (\<lambda>e. True) st st2"
    using after_makedirs(1) [OF load mk, of ?folder] by (rule only_logs_mono) simp
  have n: "new_events st st3 = new_events st st1 @ new_events st1 st2 @ new_events st2 st3"
    using new_events_trans [OF o12 o23] n12 by simp
  have md: "MakeDirs ?folder \<in> set (new_events st st3)"
    using e2 n by simp
  note w = viz_written [OF viz]
  have o3: "only_logs (\<lambda>e. \<not> is_post e \<and> e \<noteq> WriteFile (readme_path ?folder)) st (py_print ?err st3)"
    unfolding py_print_def
    by (rule only_logs_trans [OF b(1)]) (rule only_logs_emit, simp)
  have nr: "WriteFile (readme_path ?folder) \<notin> set (new_events st (py_print ?err st3))"
    using o3 by (rule no_write_in_quiet)
  have hc: "http_calls (py_print ?err st3) = http_calls st"
    using o3 by (rule quiet_http_calls)
  from m d md w n nr hc b(2) show ?thesis
    by (auto simp: py_print_def)
qed

theorem missing_credential_leaves_charts_witness:
  "main ((demo_world server_down)\<lparr>environ := Map.empty\<rparr>) demo_state
     = (Inl (SysExit 1),
        \<lparr>files = [''data/chart1.png'' \<mapsto> ''PNG1'', ''data/chart2.png'' \<mapsto> ''PNG2''],
         dirs = {''data''},
         trace = [Print ''Loaded dataset with 3 rows and 3 columns.'', MakeDirs ''data'',
                  Heatmap (df_corr (demo_world server_down) demo_df),
                  WriteFile ''data/chart1.png'',
                  HistPlot [(IntV 0, FloatV 9 (- 1)), (IntV 2, FloatV 4 0)],
                  WriteFile ''data/chart2.png'',
                  Print ''Error: OPENAI_API_KEY not set.'']\<rparr>)"
  using missing_credential_leaves_charts
    [of "(demo_world server_down)\<lparr>environ := Map.empty\<rparr>" demo_state demo_df
        "snd (load_data ((demo_world server_down)\<lparr>environ := Map.empty\<rparr>) ''data.csv'' demo_state)"
        "snd (makedirs ''data''
               (snd (load_data ((demo_world server_down)\<lparr>environ := Map.empty\<rparr>) ''data.csv''
                       demo_state)))"
        "snd (generate_visualizations ((demo_world server_down)\<lparr>environ := Map.empty\<rparr>) demo_df
               ''data''
               (snd (makedirs ''data''
                      (snd (load_data ((demo_world server_down)\<lparr>environ := Map.empty\<rparr>)
                              ''data.csv'' demo_state)))))"]
  by (simp add: run_defs demo_defs)

end
